theory Spec2Isabelle
  imports Complex_Main
begin

section \<open>Python values and exceptions\<close>

text \<open>
  The collaborators hand over attributes of unknown type. The universe of values covers
  \<open>None\<close>, integers, floats, strings and values of any other type that has no numeric
  conversion (a list, a dict). Floats are modelled by their exact rational value: rounding
  of binary floating point, infinities and NaN are outside the model. Strings are lists of
  ASCII characters. Booleans are outside the universe.
\<close>

datatype pyval = PNone | PInt int | PFloat rat | PStr string | PObject

datatype exn_class = ValueError | TypeError | ValidationError | OtherException

text \<open>An exception is its class and its message (\<open>str(e)\<close>).\<close>

datatype exn = Exn exn_class string

fun exn_str :: "exn \<Rightarrow> string" where
  "exn_str (Exn c m) = m"

fun exn_cls :: "exn \<Rightarrow> exn_class" where
  "exn_cls (Exn c m) = c"

section \<open>Normalization helpers\<close>

definition is_digit :: "char \<Rightarrow> bool" where
  "is_digit c = (48 \<le> (of_char c :: nat) \<and> (of_char c :: nat) \<le> 57)"

definition digit_val :: "char \<Rightarrow> nat" where
  "digit_val c = of_char c - 48"

text \<open>The value of a string of decimal digits, most significant digit first.\<close>

definition digits_val :: "string \<Rightarrow> nat" where
  "digits_val ds = foldl (\<lambda>n c. 10 * n + digit_val c) 0 ds"

text \<open>The character class \<^verbatim>\<open>[\d,.]\<close> of the regular expression in \<^verbatim>\<open>_parse_price\<close>.\<close>

definition price_char :: "char \<Rightarrow> bool" where
  "price_char c = (is_digit c \<or> c = CHR '','' \<or> c = CHR ''.'')"

text \<open>
  \<^verbatim>\<open>re.search(r"[\d,.]+", price)\<close>: the leftmost match of a greedy character-class
  repetition is the first maximal run of characters of the class; \<open>None\<close> when the
  string has no such character. The result is \<^verbatim>\<open>match.group(0)\<close>.
\<close>

definition re_search_price :: "string \<Rightarrow> string option" where
  "re_search_price s =
     (case dropWhile (\<lambda>c. \<not> price_char c) s of
        [] \<Rightarrow> None
      | r \<Rightarrow> Some (takeWhile price_char r))"

text \<open>\<^verbatim>\<open>.replace(",", "")\<close>\<close>

definition replace_commas :: "string \<Rightarrow> string" where
  "replace_commas s = filter (\<lambda>c. c \<noteq> CHR '','') s"

text \<open>
  \<^verbatim>\<open>float(s)\<close> on the strings that reach it from \<^verbatim>\<open>_parse_price\<close>: strings of
  digits and dots. Python accepts \<open>12\<close>, \<open>12.\<close>, \<open>12.5\<close> and \<open>.5\<close>, and raises
  ValueError on the empty string, on a lone dot and on a second dot. Signs, exponents,
  blanks and underscores cannot occur in the argument (lemma \<open>float_arg_chars\<close>) and
  are answered with ValueError here.
\<close>

definition float_error :: "string \<Rightarrow> exn" where
  "float_error s = Exn ValueError (''could not convert string to float: '' @ [CHR 0x27] @ s @ [CHR 0x27])"

definition py_float :: "string \<Rightarrow> exn + rat" where
  "py_float s =
     (let ip = takeWhile is_digit s; rest = dropWhile is_digit s in
      case rest of
        [] \<Rightarrow> if ip = [] then Inl (float_error s) else Inr (of_nat (digits_val ip))
      | c # fp \<Rightarrow>
          if c = CHR ''.'' \<and> list_all is_digit fp \<and> (ip \<noteq> [] \<or> fp \<noteq> [])
          then Inr (of_nat (digits_val ip) + of_nat (digits_val fp) / 10 ^ length fp)
          else Inl (float_error s))"

text \<open>
  \<^verbatim>\<open>_parse_price\<close> (the leading underscore is not an Isabelle name). There is no
  exception handler in it: what \<^verbatim>\<open>float\<close> raises leaves the function.
\<close>

definition parse_price :: "pyval \<Rightarrow> exn + pyval" where
  "parse_price price =
     (case price of
        PStr s \<Rightarrow>
          (case re_search_price s of
             Some m \<Rightarrow>
               (case py_float (replace_commas m) of
                  Inl e \<Rightarrow> Inl e
                | Inr r \<Rightarrow> Inr (PFloat r))
           | None \<Rightarrow> Inr PNone)
      | _ \<Rightarrow> Inr price)"

text \<open>
  \<^verbatim>\<open>int(s)\<close> on a string: blanks around are stripped, one sign is allowed, then
  digits, with single underscores between digits. The limit that recent Python versions
  put on the number of digits is left out.
\<close>

definition is_space :: "char \<Rightarrow> bool" where
  "is_space c = (c = CHR '' '' \<or> (9 \<le> (of_char c :: nat) \<and> (of_char c :: nat) \<le> 13)
                  \<or> (28 \<le> (of_char c :: nat) \<and> (of_char c :: nat) \<le> 31))"

definition strip :: "string \<Rightarrow> string" where
  "strip s = rev (dropWhile is_space (rev (dropWhile is_space s)))"

fun int_body_ok :: "string \<Rightarrow> bool" where
  "int_body_ok [] = False"
| "int_body_ok [c] = is_digit c"
| "int_body_ok (c # d # cs) =
     (is_digit c \<and> (if d = CHR ''_'' then cs \<noteq> [] \<and> int_body_ok cs else int_body_ok (d # cs)))"

definition int_error :: "string \<Rightarrow> exn" where
  "int_error s = Exn ValueError (''invalid literal for int() with base 10: '' @ [CHR 0x27] @ s @ [CHR 0x27])"

definition py_int_str :: "string \<Rightarrow> exn + int" where
  "py_int_str s =
     (let t = strip s;
          neg = (t \<noteq> [] \<and> hd t = CHR ''-'');
          body = (if t \<noteq> [] \<and> (hd t = CHR ''-'' \<or> hd t = CHR ''+'') then tl t else t) in
      if int_body_ok body
      then (let n = int (digits_val (filter is_digit body)) in Inr (if neg then - n else n))
      else Inl (int_error s))"

text \<open>\<^verbatim>\<open>int(x)\<close>: a float is truncated towards zero, an object of another type is a TypeError.\<close>

definition py_int :: "pyval \<Rightarrow> exn + int" where
  "py_int v =
     (case v of
        PInt i \<Rightarrow> Inr i
      | PFloat r \<Rightarrow> Inr (if 0 \<le> r then \<lfloor>r\<rfloor> else \<lceil>r\<rceil>)
      | PStr s \<Rightarrow> py_int_str s
      | PNone \<Rightarrow> Inl (Exn TypeError ''int() argument must be a string, a bytes-like object or a real number, not 'NoneType' '')
      | PObject \<Rightarrow> Inl (Exn TypeError ''int() argument must be a string, a bytes-like object or a real number''))"

text \<open>
  \<^verbatim>\<open>_parse_stops\<close>: the body runs under \<^verbatim>\<open>try\<close>, and the handler turns ValueError
  and TypeError into \<open>None\<close>; any other exception leaves the function.
\<close>

definition parse_stops :: "pyval \<Rightarrow> exn + pyval" where
  "parse_stops stops =
     (case (if stops = PNone then Inr PNone
            else (case stops of
                    PInt i \<Rightarrow> Inr stops
                  | _ \<Rightarrow> (case py_int stops of Inl e \<Rightarrow> Inl e | Inr i \<Rightarrow> Inr (PInt i)))) of
        Inl e \<Rightarrow> if exn_cls e = ValueError \<or> exn_cls e = TypeError then Inr PNone else Inl e
      | Inr v \<Rightarrow> Inr v)"

section \<open>Records of the API\<close>

text \<open>
  The pydantic models. \<^verbatim>\<open>FlightInfo\<close> and \<^verbatim>\<open>HotelInfo\<close> share field names in the
  source; the fields carry the prefixes \<open>f_\<close> and \<open>h_\<close> here.
\<close>

record FlightInfo =
  f_name :: string
  f_departure :: string
  f_arrival :: string
  f_arrival_time_ahead :: "string option"
  f_duration :: "string option"
  f_stops :: "int option"
  f_delay :: "string option"
  f_price :: "rat option"
  f_is_best :: "bool option"

record HotelInfo =
  h_name :: string
  h_price :: "rat option"
  h_rating :: "rat option"
  h_url :: "string option"
  h_amenities :: "string list option"

record HotelPreferences =
  star_rating :: "int option"
  max_price_per_night :: "rat option"
  amenities :: "string list option"

record TripPlanRequest =
  origin :: string
  destination :: string
  depart_date :: string
  return_date :: "string option"
  adults :: int
  children :: int
  hotel_preferences :: "HotelPreferences option"
  max_total_budget :: "rat option"

text \<open>The \<^verbatim>\<open>breakdown\<close> dictionary has five fixed keys; it is a record here.\<close>

record breakdown =
  b_flight :: rat
  b_hotel :: rat
  b_nights :: int
  b_adults :: int
  b_children :: int

record TripPlanResponse =
  best_outbound_flight :: "FlightInfo option"
  best_return_flight :: "FlightInfo option"
  best_hotel :: "HotelInfo option"
  total_estimated_cost :: "rat option"
  per_person_per_day :: "rat option"
  breakdown :: breakdown
  suggestions :: "string option"

datatype http_exception = HTTPException int string

section \<open>Collaborators\<close>

text \<open>
  What a flight item of \<^verbatim>\<open>fast_flights\<close> carries. \<^verbatim>\<open>stops\<close> and \<^verbatim>\<open>price\<close> are the
  two attributes the helpers normalize, so they are untyped values; an absent attribute
  is \<open>PNone\<close>, as \<^verbatim>\<open>getattr(f, 'price', None)\<close> reads it.
\<close>

record raw_flight =
  rf_name :: string
  rf_departure :: string
  rf_arrival :: string
  rf_arrival_time_ahead :: "string option"
  rf_duration :: "string option"
  rf_stops :: pyval
  rf_delay :: "string option"
  rf_price :: pyval
  rf_is_best :: "bool option"

record flight_query =
  q_date :: string
  q_from_airport :: string
  q_to_airport :: string
  q_trip :: string
  q_seat :: string
  q_adults :: int
  q_children :: int
  q_infants_in_seat :: int
  q_infants_on_lap :: int
  q_fetch_mode :: string

record hotel_query =
  hq_checkin_date :: string
  hq_checkout_date :: string
  hq_location :: string
  hq_adults :: int
  hq_children :: int
  hq_fetch_mode :: string
  hq_debug :: bool
  hq_limit :: int

datatype call = GetFlights flight_query | GetHotels hotel_query

datatype log_level = WARNING | ERROR

text \<open>
  The effects of a request: the collaborator calls made so far, in order, and the lines
  written to the log.
\<close>

record world =
  calls :: "call list"
  logs :: "(log_level \<times> string) list"

text \<open>
  The libraries the planner calls are parameters. A collaborator answers a query with a
  result or an exception, and its answer may depend on the calls made before. Building
  the argument objects (\<^verbatim>\<open>Passengers\<close>, \<^verbatim>\<open>FlightData\<close>, \<^verbatim>\<open>HotelData\<close>,
  \<^verbatim>\<open>Guests\<close>) happens in the same \<^verbatim>\<open>try\<close> block as the call, so an exception of
  a constructor is an exception of the answer. The hotel answer is the list of
  \<^verbatim>\<open>HotelInfo\<close> records built from the items, or the exception of the call or of that
  construction. \<open>to_datetime\<close> is \<^verbatim>\<open>pd.to_datetime\<close> on a string, as nanoseconds since
  the epoch (timestamps without a time zone). \<open>strptime_date\<close> is
  \<^verbatim>\<open>datetime.strptime(v, "%Y-%m-%d").date()\<close> as a day number and \<open>today\<close> is
  \<^verbatim>\<open>datetime.date.today()\<close>.
\<close>

record env =
  get_flights :: "call list \<Rightarrow> flight_query \<Rightarrow> exn + raw_flight list"
  get_hotels :: "call list \<Rightarrow> hotel_query \<Rightarrow> exn + HotelInfo list"
  to_datetime :: "string \<Rightarrow> exn + int"
  strptime_date :: "string \<Rightarrow> exn + int"
  today :: int

section \<open>Building flight records\<close>

text \<open>
  The validation pydantic applies to \<^verbatim>\<open>stops: Optional[int]\<close> and
  \<^verbatim>\<open>price: Optional[float]\<close>. After \<^verbatim>\<open>_parse_stops\<close> the value is \<open>None\<close> or an
  integer, after \<^verbatim>\<open>_parse_price\<close> it is never a string (lemmas \<open>parse_stops_range\<close>
  and \<open>parse_price_not_str\<close>); the remaining cases are rejected.
\<close>

definition validation_error :: "string \<Rightarrow> exn" where
  "validation_error field = Exn ValidationError (''1 validation error for FlightInfo: '' @ field)"

definition validate_stops :: "pyval \<Rightarrow> exn + int option" where
  "validate_stops v =
     (case v of PNone \<Rightarrow> Inr None | PInt i \<Rightarrow> Inr (Some i) | _ \<Rightarrow> Inl (validation_error ''stops''))"

definition validate_price :: "pyval \<Rightarrow> exn + rat option" where
  "validate_price v =
     (case v of
        PNone \<Rightarrow> Inr None
      | PInt i \<Rightarrow> Inr (Some (of_int i))
      | PFloat r \<Rightarrow> Inr (Some r)
      | _ \<Rightarrow> Inl (validation_error ''price''))"

text \<open>
  The call \<^verbatim>\<open>FlightInfo(name=f.name, ..., stops=_parse_stops(...), ...,
  price=_parse_price(...), ...)\<close>: the arguments are evaluated in order, then the
  record is validated.
\<close>

definition flight_info :: "raw_flight \<Rightarrow> exn + FlightInfo" where
  "flight_info f =
     (case parse_stops (rf_stops f) of
        Inl e \<Rightarrow> Inl e
      | Inr st \<Rightarrow>
          (case parse_price (rf_price f) of
             Inl e \<Rightarrow> Inl e
           | Inr pr \<Rightarrow>
               (case validate_stops st of
                  Inl e \<Rightarrow> Inl e
                | Inr st' \<Rightarrow>
                    (case validate_price pr of
                       Inl e \<Rightarrow> Inl e
                     | Inr pr' \<Rightarrow>
                         Inr \<lparr>f_name = rf_name f, f_departure = rf_departure f,
                              f_arrival = rf_arrival f,
                              f_arrival_time_ahead = rf_arrival_time_ahead f,
                              f_duration = rf_duration f, f_stops = st',
                              f_delay = rf_delay f, f_price = pr',
                              f_is_best = rf_is_best f\<rparr>))))"

text \<open>A list comprehension over a function that may raise: the first exception ends it.\<close>

fun traverse :: "('a \<Rightarrow> exn + 'b) \<Rightarrow> 'a list \<Rightarrow> exn + 'b list" where
  "traverse g [] = Inr []"
| "traverse g (x # xs) =
     (case g x of
        Inl e \<Rightarrow> Inl e
      | Inr y \<Rightarrow> (case traverse g xs of Inl e \<Rightarrow> Inl e | Inr ys \<Rightarrow> Inr (y # ys)))"

section \<open>Selection by price\<close>

text \<open>
  \<^verbatim>\<open>min(items, key=..., default=None)\<close>: Python keeps the first item and replaces it
  only by an item whose key is strictly smaller.
\<close>

fun py_min_from :: "('a \<Rightarrow> rat) \<Rightarrow> 'a \<Rightarrow> 'a list \<Rightarrow> 'a" where
  "py_min_from key best [] = best"
| "py_min_from key best (x # xs) = py_min_from key (if key x < key best then x else best) xs"

definition py_min :: "('a \<Rightarrow> rat) \<Rightarrow> 'a list \<Rightarrow> 'a option" where
  "py_min key xs = (case xs of [] \<Rightarrow> None | x # rest \<Rightarrow> Some (py_min_from key x rest))"

text \<open>
  \<^verbatim>\<open>min((f for f in flights if f.price is not None), key=lambda x: x.price, default=None)\<close>
\<close>

definition min_price_flight :: "FlightInfo list \<Rightarrow> FlightInfo option" where
  "min_price_flight flights =
     py_min (\<lambda>x. the (f_price x)) (filter (\<lambda>f. f_price f \<noteq> None) flights)"

definition min_price_hotel :: "HotelInfo list \<Rightarrow> HotelInfo option" where
  "min_price_hotel hotels =
     py_min (\<lambda>x. the (h_price x)) (filter (\<lambda>h. h_price h \<noteq> None) hotels)"

section \<open>The trip planner\<close>

text \<open>Python's truth test on an optional string or list: present and not empty.\<close>

definition truthy_seq :: "'a list option \<Rightarrow> bool" where
  "truthy_seq v = (case v of None \<Rightarrow> False | Some xs \<Rightarrow> xs \<noteq> [])"

subsection \<open>Flight legs\<close>

text \<open>
  The body of a flight \<^verbatim>\<open>try\<close> block, which the source writes out once for the
  outbound leg and once inside the loop of the return leg: call the collaborator, build
  the records, select the cheapest. \<open>flight_answer\<close> is what the block computes after
  the calls \<open>hist\<close>; \<open>flight_leg\<close> also records the call, whatever it answers.
\<close>

definition flight_answer :: "env \<Rightarrow> call list \<Rightarrow> flight_query \<Rightarrow> exn + FlightInfo option" where
  "flight_answer env hist q =
     (case get_flights env hist q of
        Inl e \<Rightarrow> Inl e
      | Inr raws \<Rightarrow>
          (case traverse flight_info raws of
             Inl e \<Rightarrow> Inl e
           | Inr flights \<Rightarrow> Inr (min_price_flight flights)))"

definition flight_leg :: "env \<Rightarrow> flight_query \<Rightarrow> world \<Rightarrow> (exn + FlightInfo option) \<times> world" where
  "flight_leg env q w = (flight_answer env (calls w) q, w\<lparr>calls := calls w @ [GetFlights q]\<rparr>)"

definition outbound_query :: "TripPlanRequest \<Rightarrow> flight_query" where
  "outbound_query req =
     \<lparr>q_date = depart_date req, q_from_airport = origin req, q_to_airport = destination req,
      q_trip = ''one-way'', q_seat = ''economy'', q_adults = adults req,
      q_children = children req, q_infants_in_seat = 0, q_infants_on_lap = 0,
      q_fetch_mode = ''local''\<rparr>"

definition return_query :: "TripPlanRequest \<Rightarrow> string \<Rightarrow> string \<Rightarrow> flight_query" where
  "return_query req rd trip_type =
     \<lparr>q_date = rd, q_from_airport = destination req, q_to_airport = origin req,
      q_trip = trip_type, q_seat = ''economy'', q_adults = adults req,
      q_children = children req, q_infants_in_seat = 0, q_infants_on_lap = 0,
      q_fetch_mode = ''local''\<rparr>"

text \<open>\<^verbatim>\<open>best_price\<close> starts as \<^verbatim>\<open>float('inf')\<close>.\<close>

datatype best_price = Infinity | Price rat

fun below :: "rat \<Rightarrow> best_price \<Rightarrow> bool" where
  "below p Infinity = True"
| "below p (Price b) = (p < b)"

definition trip_types :: "string list" where
  "trip_types = [''one-way'', ''round-trip'', ''multi-city'']"

text \<open>
  The loop over the trip types. An exception in the body is caught inside the loop: a
  warning is logged and the next trip type follows.
\<close>

fun return_loop ::
  "env \<Rightarrow> TripPlanRequest \<Rightarrow> string \<Rightarrow> string list \<Rightarrow> best_price \<times> FlightInfo option \<Rightarrow> world
     \<Rightarrow> (best_price \<times> FlightInfo option) \<times> world" where
  "return_loop env req rd [] acc w = (acc, w)"
| "return_loop env req rd (trip_type # rest) (bp, best) w =
     (case flight_leg env (return_query req rd trip_type) w of
        (Inl e, w1) \<Rightarrow>
          return_loop env req rd rest (bp, best)
            (w1\<lparr>logs := logs w1 @
               [(WARNING, ''Return flight search error for trip_type '' @ trip_type
                            @ '' in /trip/plan: '' @ exn_str e)]\<rparr>)
      | (Inr candidate, w1) \<Rightarrow>
          (case candidate of
             None \<Rightarrow> return_loop env req rd rest (bp, best) w1
           | Some c \<Rightarrow>
               (case f_price c of
                  None \<Rightarrow> return_loop env req rd rest (bp, best) w1
                | Some p \<Rightarrow>
                    if below p bp then return_loop env req rd rest (Price p, Some c) w1
                    else return_loop env req rd rest (bp, best) w1)))"

definition return_leg :: "env \<Rightarrow> TripPlanRequest \<Rightarrow> world \<Rightarrow> FlightInfo option \<times> world" where
  "return_leg env req w =
     (if truthy_seq (return_date req)
      then (case return_loop env req (the (return_date req)) trip_types (Infinity, None) w of
              ((bp, best), w') \<Rightarrow> (best, w'))
      else (None, w))"

subsection \<open>Hotel leg\<close>

text \<open>
  The three filters of the preferences, each under Python's truth test: a preference
  that is absent, zero or empty filters nothing, and a hotel passes a filter only with a
  value that is present and not zero (not empty).
\<close>

definition filter_hotels :: "HotelPreferences option \<Rightarrow> HotelInfo list \<Rightarrow> HotelInfo list" where
  "filter_hotels prefs hotels =
     (case prefs of
        None \<Rightarrow> hotels
      | Some p \<Rightarrow>
          (let fh1 = (case star_rating p of
                        None \<Rightarrow> hotels
                      | Some sr \<Rightarrow>
                          if sr \<noteq> 0
                          then filter (\<lambda>h. case h_rating h of
                                              None \<Rightarrow> False
                                            | Some r \<Rightarrow> r \<noteq> 0 \<and> of_int sr \<le> r) hotels
                          else hotels);
               fh2 = (case max_price_per_night p of
                        None \<Rightarrow> fh1
                      | Some mp \<Rightarrow>
                          if mp \<noteq> 0
                          then filter (\<lambda>h. case h_price h of
                                              None \<Rightarrow> False
                                            | Some pr \<Rightarrow> pr \<noteq> 0 \<and> pr \<le> mp) fh1
                          else fh1);
               fh3 = (case amenities p of
                        None \<Rightarrow> fh2
                      | Some req_am \<Rightarrow>
                          if req_am \<noteq> []
                          then filter (\<lambda>h. case h_amenities h of
                                              None \<Rightarrow> False
                                            | Some am \<Rightarrow> am \<noteq> [] \<and> list_all (\<lambda>a. a \<in> set am) req_am) fh2
                          else fh2)
           in fh3))"

definition hotel_query_of :: "TripPlanRequest \<Rightarrow> hotel_query" where
  "hotel_query_of req =
     \<lparr>hq_checkin_date = depart_date req,
      hq_checkout_date = (if truthy_seq (return_date req) then the (return_date req)
                          else depart_date req),
      hq_location = destination req, hq_adults = adults req, hq_children = children req,
      hq_fetch_mode = ''live'', hq_debug = False, hq_limit = 10\<rparr>"

definition hotel_answer :: "env \<Rightarrow> call list \<Rightarrow> TripPlanRequest \<Rightarrow> exn + HotelInfo option" where
  "hotel_answer env hist req =
     (case get_hotels env hist (hotel_query_of req) of
        Inl e \<Rightarrow> Inl e
      | Inr hotels \<Rightarrow> Inr (min_price_hotel (filter_hotels (hotel_preferences req) hotels)))"

definition hotel_leg :: "env \<Rightarrow> TripPlanRequest \<Rightarrow> world \<Rightarrow> (exn + HotelInfo option) \<times> world" where
  "hotel_leg env req w =
     (hotel_answer env (calls w) req, w\<lparr>calls := calls w @ [GetHotels (hotel_query_of req)]\<rparr>)"

subsection \<open>Costs\<close>

text \<open>
  \<^verbatim>\<open>if flight and flight.price: total_flight_cost += flight.price * (req.adults + req.children)\<close>
\<close>

definition add_flight_cost :: "TripPlanRequest \<Rightarrow> FlightInfo option \<Rightarrow> rat \<Rightarrow> rat" where
  "add_flight_cost req flight cost =
     (case flight of
        None \<Rightarrow> cost
      | Some f \<Rightarrow>
          (case f_price f of
             None \<Rightarrow> cost
           | Some p \<Rightarrow> if p \<noteq> 0 then cost + p * of_int (adults req + children req) else cost))"

definition total_flight_cost :: "TripPlanRequest \<Rightarrow> FlightInfo option \<Rightarrow> FlightInfo option \<Rightarrow> rat" where
  "total_flight_cost req out ret = add_flight_cost req ret (add_flight_cost req out 0)"

definition ns_per_day :: int where
  "ns_per_day = 86400 * 1000000000"

text \<open>
  \<^verbatim>\<open>(pd.to_datetime(req.return_date) - pd.to_datetime(req.depart_date)).days if
  getattr(req, 'return_date', None) else 1\<close>. The \<^verbatim>\<open>days\<close> of a time difference
  are its whole days rounded down.
\<close>

definition nights_of :: "env \<Rightarrow> TripPlanRequest \<Rightarrow> exn + int" where
  "nights_of env req =
     (if truthy_seq (return_date req)
      then (case to_datetime env (the (return_date req)) of
              Inl e \<Rightarrow> Inl e
            | Inr t2 \<Rightarrow>
                (case to_datetime env (depart_date req) of
                   Inl e \<Rightarrow> Inl e
                 | Inr t1 \<Rightarrow> Inr ((t2 - t1) div ns_per_day)))
      else Inr 1)"

definition total_hotel_cost :: "HotelInfo option \<Rightarrow> int \<Rightarrow> rat" where
  "total_hotel_cost hotel nights =
     (case hotel of
        None \<Rightarrow> 0
      | Some h \<Rightarrow>
          (case h_price h of
             None \<Rightarrow> 0
           | Some p \<Rightarrow> if p \<noteq> 0 then p * of_int nights else 0))"

definition per_person_per_day_of :: "TripPlanRequest \<Rightarrow> rat \<Rightarrow> int \<Rightarrow> rat option" where
  "per_person_per_day_of req tot nights =
     (if nights > 0 \<and> adults req + children req > 0
      then Some (tot / of_int ((adults req + children req) * nights))
      else None)"

definition advisory :: string where
  "advisory = ''Consider adjusting your dates, reducing hotel star rating, or increasing your budget.''"

definition suggestions_of :: "TripPlanRequest \<Rightarrow> rat \<Rightarrow> string option" where
  "suggestions_of req tot =
     (case max_total_budget req of
        None \<Rightarrow> None
      | Some b \<Rightarrow> if b \<noteq> 0 \<and> tot > b then Some advisory else None)"

definition build_response ::
  "TripPlanRequest \<Rightarrow> FlightInfo option \<Rightarrow> FlightInfo option \<Rightarrow> HotelInfo option \<Rightarrow> int
     \<Rightarrow> TripPlanResponse" where
  "build_response req out ret hotel nights =
     (let flight_cost = total_flight_cost req out ret;
          hotel_cost = total_hotel_cost hotel nights;
          total_cost = flight_cost + hotel_cost in
      \<lparr>best_outbound_flight = out, best_return_flight = ret, best_hotel = hotel,
       total_estimated_cost = Some total_cost,
       per_person_per_day = per_person_per_day_of req total_cost nights,
       breakdown = \<lparr>b_flight = flight_cost, b_hotel = hotel_cost, b_nights = nights,
                    b_adults = adults req, b_children = children req\<rparr>,
       suggestions = suggestions_of req total_cost\<rparr>)"

subsection \<open>The endpoint function\<close>

definition log_line :: "log_level \<Rightarrow> string \<Rightarrow> world \<Rightarrow> world" where
  "log_line lvl msg w = w\<lparr>logs := logs w @ [(lvl, msg)]\<rparr>"

text \<open>
  \<^verbatim>\<open>plan_trip\<close>: the outbound block, the return loop, the hotel block and the costs, in
  this order. The exception of the outbound block and of the hotel block becomes an
  \<^verbatim>\<open>HTTPException\<close> with status 502, which the outer handler raises again; any other
  exception reaches the outer \<^verbatim>\<open>except Exception\<close> and becomes status 400.
\<close>

definition plan_trip ::
  "env \<Rightarrow> TripPlanRequest \<Rightarrow> world \<Rightarrow> (http_exception + TripPlanResponse) \<times> world" where
  "plan_trip env req w =
     (case flight_leg env (outbound_query req) w of
        (Inl e, w1) \<Rightarrow>
          (Inl (HTTPException 502 (''Outbound flight search failed: '' @ exn_str e)),
           log_line ERROR (''Outbound flight search error in /trip/plan: '' @ exn_str e) w1)
      | (Inr out, w1) \<Rightarrow>
          (case return_leg env req w1 of
             (ret, w2) \<Rightarrow>
               (case hotel_leg env req w2 of
                  (Inl e, w3) \<Rightarrow>
                    (Inl (HTTPException 502 (''Hotel search failed: '' @ exn_str e)),
                     log_line ERROR (''Hotel search error in /trip/plan: '' @ exn_str e) w3)
                | (Inr hotel, w3) \<Rightarrow>
                    (case nights_of env req of
                       Inl e \<Rightarrow>
                         (Inl (HTTPException 400 (exn_str e)),
                          log_line ERROR (''Trip plan error: '' @ exn_str e) w3)
                     | Inr nights \<Rightarrow> (Inr (build_response req out ret hotel nights), w3)))))"

subsection \<open>Validation of the request\<close>

text \<open>
  The validator of \<^verbatim>\<open>depart_date\<close> and the bounds of the fields of
  \<^verbatim>\<open>TripPlanRequest\<close>; the framework runs them before \<^verbatim>\<open>plan_trip\<close>. No validator
  reads \<^verbatim>\<open>return_date\<close>.
\<close>

definition depart_date_not_in_past :: "env \<Rightarrow> string \<Rightarrow> exn + string" where
  "depart_date_not_in_past env v =
     (case strptime_date env v of
        Inl e \<Rightarrow> Inl e
      | Inr depart \<Rightarrow>
          if depart < today env then Inl (Exn ValueError ''depart_date cannot be in the past.'')
          else Inr v)"

definition request_valid :: "env \<Rightarrow> TripPlanRequest \<Rightarrow> bool" where
  "request_valid env req =
     (adults req \<ge> 1 \<and> children req \<ge> 0 \<and>
      (case depart_date_not_in_past env (depart_date req) of Inl e \<Rightarrow> False | Inr v \<Rightarrow> True))"

section \<open>Notions used to state the properties\<close>

text \<open>
  The answers of the return variants in the order of the loop, each asked after the calls
  made before it, and the candidates of the variants that succeeded.
\<close>

fun variant_answers ::
  "env \<Rightarrow> TripPlanRequest \<Rightarrow> string \<Rightarrow> string list \<Rightarrow> call list \<Rightarrow> (exn + FlightInfo option) list" where
  "variant_answers env req rd [] hist = []"
| "variant_answers env req rd (t # ts) hist =
     flight_answer env hist (return_query req rd t)
       # variant_answers env req rd ts (hist @ [GetFlights (return_query req rd t)])"

fun successful_candidates :: "(exn + FlightInfo option) list \<Rightarrow> FlightInfo list" where
  "successful_candidates [] = []"
| "successful_candidates (Inr (Some c) # as) = c # successful_candidates as"
| "successful_candidates (a # as) = successful_candidates as"

text \<open>
  The hotel filter in the words of the specification: each preference that is specified
  is a constraint, and a hotel without the value a constraint reads fails it.
\<close>

definition spec_hotel_ok :: "HotelPreferences \<Rightarrow> HotelInfo \<Rightarrow> bool" where
  "spec_hotel_ok p h =
     ((case star_rating p of
         None \<Rightarrow> True
       | Some sr \<Rightarrow> (case h_rating h of None \<Rightarrow> False | Some r \<Rightarrow> of_int sr \<le> r)) \<and>
      (case max_price_per_night p of
         None \<Rightarrow> True
       | Some mp \<Rightarrow> (case h_price h of None \<Rightarrow> False | Some pr \<Rightarrow> pr \<le> mp)) \<and>
      (case amenities p of
         None \<Rightarrow> True
       | Some req_am \<Rightarrow>
           (case h_amenities h of None \<Rightarrow> False | Some am \<Rightarrow> set req_am \<subseteq> set am)))"

section \<open>Concrete inputs\<close>

text \<open>
  An instance of the date functions: dates written \<^verbatim>\<open>YYYY-MM-DD\<close>, the format of the
  API, read as the number of days since 1970-01-01. Both \<^verbatim>\<open>strptime\<close> and pandas
  read such a string as this date; strings of another shape, some of which pandas reads
  too, are answered with an exception in this instance.
\<close>

definition days_from_civil :: "int \<Rightarrow> int \<Rightarrow> int \<Rightarrow> int" where
  "days_from_civil y m d =
     (let y' = (if m \<le> 2 then y - 1 else y);
          era = y' div 400;
          yoe = y' - era * 400;
          mp = (m + 9) mod 12;
          doy = (153 * mp + 2) div 5 + d - 1;
          doe = yoe * 365 + yoe div 4 - yoe div 100 + doy
      in era * 146097 + doe - 719468)"

definition days_in_month :: "int \<Rightarrow> int \<Rightarrow> int" where
  "days_in_month y m =
     (if m = 2 then (if y mod 4 = 0 \<and> (y mod 100 \<noteq> 0 \<or> y mod 400 = 0) then 29 else 28)
      else if m = 4 \<or> m = 6 \<or> m = 9 \<or> m = 11 then 30 else 31)"

definition parse_iso_date :: "string \<Rightarrow> exn + int" where
  "parse_iso_date s =
     (if length s = 10 \<and> s ! 4 = CHR ''-'' \<and> s ! 7 = CHR ''-'' \<and> list_all is_digit (take 4 s)
         \<and> list_all is_digit (take 2 (drop 5 s)) \<and> list_all is_digit (drop 8 s)
      then (let y = int (digits_val (take 4 s));
                m = int (digits_val (take 2 (drop 5 s)));
                d = int (digits_val (drop 8 s)) in
            if 1 \<le> y \<and> 1 \<le> m \<and> m \<le> 12 \<and> 1 \<le> d \<and> d \<le> days_in_month y m
            then Inr (days_from_civil y m d)
            else Inl (Exn ValueError (''day is out of range: '' @ s)))
      else Inl (Exn ValueError (''time data does not match format: '' @ s)))"

definition iso_to_datetime :: "string \<Rightarrow> exn + int" where
  "iso_to_datetime s = (case parse_iso_date s of Inl e \<Rightarrow> Inl e | Inr d \<Rightarrow> Inr (d * ns_per_day))"

text \<open>
  A collaborator pair for the examples: \<open>out\<close> answers the flight query that leaves the
  origin LHR, \<open>ret\<close> answers the return queries by trip type, \<open>hot\<close> answers the hotel
  query. Today is 2027-01-01.
\<close>

definition ex_env ::
  "(exn + raw_flight list) \<Rightarrow> (string \<Rightarrow> exn + raw_flight list) \<Rightarrow> (exn + HotelInfo list) \<Rightarrow> env" where
  "ex_env out ret hot =
     \<lparr>get_flights = (\<lambda>hist q. if q_from_airport q = ''LHR'' then out else ret (q_trip q)),
      get_hotels = (\<lambda>hist q. hot),
      to_datetime = iso_to_datetime,
      strptime_date = parse_iso_date,
      today = days_from_civil 2027 1 1\<rparr>"

definition ex_raw :: "string \<Rightarrow> pyval \<Rightarrow> raw_flight" where
  "ex_raw nm pr =
     \<lparr>rf_name = nm, rf_departure = ''10:00 AM'', rf_arrival = ''1:00 PM'',
      rf_arrival_time_ahead = None, rf_duration = Some ''3 hr'', rf_stops = PStr ''0'',
      rf_delay = None, rf_price = pr, rf_is_best = None\<rparr>"

definition ex_flight :: "string \<Rightarrow> rat option \<Rightarrow> FlightInfo" where
  "ex_flight nm pr =
     \<lparr>f_name = nm, f_departure = ''10:00 AM'', f_arrival = ''1:00 PM'',
      f_arrival_time_ahead = None, f_duration = Some ''3 hr'', f_stops = Some 0,
      f_delay = None, f_price = pr, f_is_best = None\<rparr>"

definition ex_hotel :: "string \<Rightarrow> rat option \<Rightarrow> rat option \<Rightarrow> string list option \<Rightarrow> HotelInfo" where
  "ex_hotel nm pr rt am = \<lparr>h_name = nm, h_price = pr, h_rating = rt, h_url = None, h_amenities = am\<rparr>"

definition ex_req :: "string option \<Rightarrow> rat option \<Rightarrow> TripPlanRequest" where
  "ex_req rd budget =
     \<lparr>origin = ''LHR'', destination = ''CDG'', depart_date = ''2030-06-24'', return_date = rd,
      adults = 2, children = 0, hotel_preferences = None, max_total_budget = budget\<rparr>"

definition ex_world :: world where
  "ex_world = \<lparr>calls = [], logs = []\<rparr>"

text \<open>One flight at 300 each way, whatever the trip type, and one hotel at 100 a night.\<close>

definition ex_env_300 :: env where
  "ex_env_300 =
     ex_env (Inr [ex_raw ''BA 304'' (PStr ''$300'')])
            (\<lambda>t. Inr [ex_raw ''AF 1681'' (PInt 300)])
            (Inr [ex_hotel ''Hotel du Nord'' (Some 100) (Some 3) (Some [''Wi-Fi''])])"

text \<open>The one-way return variant fails, round-trip offers 400 and multi-city 350.\<close>

definition ex_env_variants :: env where
  "ex_env_variants =
     ex_env (Inr [ex_raw ''BA 304'' (PStr ''$300'')])
            (\<lambda>t. if t = ''one-way'' then Inl (Exn OtherException ''no flights found'')
                  else if t = ''round-trip'' then Inr [ex_raw ''AF 1681'' (PStr ''$400'')]
                  else Inr [ex_raw ''U2 2434'' (PStr ''$350'')])
            (Inr [ex_hotel ''Hotel du Nord'' (Some 100) (Some 3) (Some [''Wi-Fi''])])"

text \<open>The outbound search fails.\<close>

definition ex_env_outbound_fails :: env where
  "ex_env_outbound_fails =
     ex_env (Inl (Exn OtherException ''connection refused''))
            (\<lambda>t. Inr [ex_raw ''AF 1681'' (PInt 300)])
            (Inr [ex_hotel ''Hotel du Nord'' (Some 100) (Some 3) (Some [''Wi-Fi''])])"

text \<open>The hotel search fails.\<close>

definition ex_env_hotel_fails :: env where
  "ex_env_hotel_fails =
     ex_env (Inr [ex_raw ''BA 304'' (PStr ''$300'')])
            (\<lambda>t. Inr [ex_raw ''AF 1681'' (PInt 300)])
            (Inl (Exn OtherException ''no hotels found''))"

text \<open>The second outbound flight carries the price \<^verbatim>\<open>"1.2.3"\<close>.\<close>

definition ex_env_malformed :: env where
  "ex_env_malformed =
     ex_env (Inr [ex_raw ''BA 304'' (PStr ''$300''), ex_raw ''BA 306'' (PStr ''1.2.3'')])
            (\<lambda>t. Inr [ex_raw ''AF 1681'' (PInt 300)])
            (Inr [ex_hotel ''Hotel du Nord'' (Some 100) (Some 3) (Some [''Wi-Fi''])])"

section \<open>Properties of the normalization helpers\<close>

lemma re_search_price_chars:
  assumes "re_search_price s = Some m"
  shows "\<forall>c \<in> set m. price_char c"
  using assms
  by (auto simp: re_search_price_def split: list.splits dest: set_takeWhileD)

lemma float_arg_chars:
  assumes "re_search_price s = Some m"
  shows "\<forall>c \<in> set (replace_commas m). is_digit c \<or> c = CHR ''.''"
  using re_search_price_chars [OF assms]
  by (auto simp: replace_commas_def price_char_def)

lemma py_float_nonneg: "py_float s = Inr r \<Longrightarrow> 0 \<le> r"
  by (auto simp: py_float_def Let_def split: list.splits if_splits)

lemma parse_price_not_str: "parse_price v \<noteq> Inr (PStr s)"
  by (auto simp: parse_price_def split: pyval.splits option.splits sum.splits)

lemma parse_price_str_nonneg:
  "parse_price (PStr s) = Inr (PFloat r) \<Longrightarrow> 0 \<le> r"
  by (auto simp: parse_price_def split: option.splits sum.splits dest: py_float_nonneg)

lemma parse_price_str_range:
  "parse_price (PStr s) = Inr v \<Longrightarrow> v = PNone \<or> (\<exists>r. v = PFloat r \<and> 0 \<le> r)"
  by (auto simp: parse_price_def split: option.splits sum.splits dest: py_float_nonneg)

lemma parse_price_pass: "(\<forall>s. v \<noteq> PStr s) \<Longrightarrow> parse_price v = Inr v"
  by (cases v) (simp_all add: parse_price_def)

lemma parse_stops_range:
  "parse_stops v = Inr PNone \<or> (\<exists>i. parse_stops v = Inr (PInt i))"
  by (cases v) (auto simp: parse_stops_def py_int_def py_int_str_def int_error_def Let_def split: sum.splits)

lemma re_search_price_None:
  assumes "\<forall>c \<in> set s. \<not> price_char c"
  shows "re_search_price s = None"
proof -
  have d: "dropWhile (\<lambda>c. \<not> price_char c) s = []" using assms by simp
  show ?thesis unfolding re_search_price_def d by simp
qed

lemma re_search_price_first_run:
  assumes "s = pre @ m @ post" and "\<forall>c \<in> set pre. \<not> price_char c" and "m \<noteq> []"
    and "\<forall>c \<in> set m. price_char c" and "post = [] \<or> \<not> price_char (hd post)"
  shows "re_search_price s = Some m"
proof -
  have d: "dropWhile (\<lambda>c. \<not> price_char c) s = m @ post"
    using assms by (cases m) (simp_all add: dropWhile_append3)
  have t: "takeWhile price_char (m @ post) = m"
    using assms(4,5) by (cases post) (simp_all add: takeWhile_tail)
  show ?thesis using d t assms(3) by (cases m) (simp_all add: re_search_price_def)
qed

lemma py_float_digits:
  assumes "ds \<noteq> []" "list_all is_digit ds"
  shows "py_float ds = Inr (of_nat (digits_val ds))"
proof -
  have t: "takeWhile is_digit ds = ds" and d: "dropWhile is_digit ds = []"
    using assms(2) by (simp_all add: list_all_iff)
  show ?thesis unfolding py_float_def t d using assms(1) by simp
qed

lemma py_float_point:
  assumes "list_all is_digit ip" "list_all is_digit fp" "ip \<noteq> [] \<or> fp \<noteq> []"
  shows "py_float (ip @ CHR ''.'' # fp) = Inr (of_nat (digits_val ip) + of_nat (digits_val fp) / 10 ^ length fp)"
proof -
  have nd: "\<not> is_digit CHR ''.''" by (simp add: is_digit_def)
  have "takeWhile is_digit (ip @ CHR ''.'' # fp) = ip"
    using assms(1) nd by (simp add: list_all_iff takeWhile_tail)
  moreover have "dropWhile is_digit (ip @ CHR ''.'' # fp) = CHR ''.'' # fp"
    using assms(1) nd by (simp add: list_all_iff dropWhile_append3)
  ultimately show ?thesis using assms by (auto simp add: py_float_def)
qed

lemma flight_info_price_str:
  assumes "flight_info f = Inr fi" "rf_price f = PStr s" "f_price fi = Some p"
  shows "0 \<le> p"
  using assms
  by (auto simp: flight_info_def validate_price_def split: sum.splits pyval.splits dest!: parse_price_str_range)

lemma flight_info_price_int:
  assumes "flight_info f = Inr fi" "rf_price f = PInt i"
  shows "f_price fi = Some (of_int i)"
  using assms
  by (auto simp: flight_info_def validate_price_def parse_price_def split: sum.splits pyval.splits)

lemma flight_info_price_float:
  assumes "flight_info f = Inr fi" "rf_price f = PFloat r"
  shows "f_price fi = Some r"
  using assms
  by (auto simp: flight_info_def validate_price_def parse_price_def split: sum.splits pyval.splits)

text \<open>
  Claim C2. The helpers are meant to be total: whatever the input, \<^verbatim>\<open>_parse_price\<close> and
  \<^verbatim>\<open>_parse_stops\<close> return a value and a malformed field becomes \<open>None\<close>.
  \<^verbatim>\<open>_parse_stops\<close> does so (lemma \<open>parse_stops_range\<close>), \<^verbatim>\<open>_parse_price\<close> does
  not: on the price \<^verbatim>\<open>"1.2.3"\<close> the regular expression matches the whole string,
  \<^verbatim>\<open>float\<close> raises ValueError and nothing catches it. One such price among the
  outbound flights fails the whole trip plan with status 502.
\<close>

theorem parse_price_raises:
  "parse_price (PStr ''1.2.3'') = Inl (float_error ''1.2.3'')
   \<and> exn_cls (float_error ''1.2.3'') = ValueError
   \<and> fst (plan_trip ex_env_malformed (ex_req None None) ex_world)
       = Inl (HTTPException 502
               (''Outbound flight search failed: '' @ exn_str (float_error ''1.2.3'')))"
  by code_simp

text \<open>
  Claim C6, as amended. For a string whose first run of digits, commas and dots is, with
  the commas removed, a decimal numeral (digits alone, or digits around one dot), the
  result is the value of that numeral; for a string without such a run it is \<open>None\<close>;
  every input that is not a string, numeric or not, is returned unchanged.
\<close>

theorem parse_price_mapping:
  "(\<forall>pre m post. s = pre @ m @ post \<and> (\<forall>c \<in> set pre. \<not> price_char c) \<and> m \<noteq> []
        \<and> (\<forall>c \<in> set m. price_char c) \<and> (post = [] \<or> \<not> price_char (hd post)) \<longrightarrow>
      (replace_commas m \<noteq> [] \<and> list_all is_digit (replace_commas m) \<longrightarrow>
         parse_price (PStr s) = Inr (PFloat (of_nat (digits_val (replace_commas m))))) \<and>
      (\<forall>ip fp. replace_commas m = ip @ CHR ''.'' # fp \<and> list_all is_digit ip
           \<and> list_all is_digit fp \<and> (ip \<noteq> [] \<or> fp \<noteq> []) \<longrightarrow>
         parse_price (PStr s)
           = Inr (PFloat (of_nat (digits_val ip) + of_nat (digits_val fp) / 10 ^ length fp))))
   \<and> ((\<forall>c \<in> set s. \<not> price_char c) \<longrightarrow> parse_price (PStr s) = Inr PNone)
   \<and> ((\<forall>t. v \<noteq> PStr t) \<longrightarrow> parse_price v = Inr v)"
proof (intro conjI allI impI)
  fix pre m post
  assume h: "s = pre @ m @ post \<and> (\<forall>c \<in> set pre. \<not> price_char c) \<and> m \<noteq> []
        \<and> (\<forall>c \<in> set m. price_char c) \<and> (post = [] \<or> \<not> price_char (hd post))"
  then have run: "re_search_price s = Some m" using re_search_price_first_run by blast
  {
    assume "replace_commas m \<noteq> [] \<and> list_all is_digit (replace_commas m)"
    then show "parse_price (PStr s) = Inr (PFloat (of_nat (digits_val (replace_commas m))))"
      using run py_float_digits [of "replace_commas m"] by (simp add: parse_price_def)
  }
  {
    fix ip fp
    assume "replace_commas m = ip @ CHR ''.'' # fp \<and> list_all is_digit ip
           \<and> list_all is_digit fp \<and> (ip \<noteq> [] \<or> fp \<noteq> [])"
    then show "parse_price (PStr s)
           = Inr (PFloat (of_nat (digits_val ip) + of_nat (digits_val fp) / 10 ^ length fp))"
      using run py_float_point [of ip fp] by (simp add: parse_price_def)
  }
next
  assume "\<forall>c \<in> set s. \<not> price_char c"
  then show "parse_price (PStr s) = Inr PNone"
    using re_search_price_None by (simp add: parse_price_def)
next
  assume "\<forall>t. v \<noteq> PStr t"
  then show "parse_price v = Inr v" by (rule parse_price_pass)
qed

text \<open>The values named in the claim.\<close>

theorem parse_price_mapping_witness:
  "parse_price (PStr ''$1,234.50'') = Inr (PFloat (2469 / 2))
   \<and> parse_price (PInt 42) = Inr (PInt 42)
   \<and> parse_price (PStr ''N/A'') = Inr PNone
   \<and> parse_price PNone = Inr PNone"
proof -
  have a: "parse_price (PStr ''$1,234.50'')
      = Inr (PFloat (of_nat (digits_val ''1234'') + of_nat (digits_val ''50'') / 10 ^ length ''50''))"
    using parse_price_mapping [of "''$1,234.50''" PNone, THEN conjunct1, rule_format,
        of "''$''" "''1,234.50''" "[]", THEN conjunct2, rule_format, of "''1234''" "''50''"]
    by (simp add: price_char_def is_digit_def replace_commas_def)
  have b: "parse_price (PInt 42) = Inr (PInt 42)"
    using parse_price_mapping [of "[]" "PInt 42"] by simp
  have c: "parse_price (PStr ''N/A'') = Inr PNone"
    using parse_price_mapping [of "''N/A''" PNone] by (simp add: price_char_def is_digit_def)
  have d: "parse_price PNone = Inr PNone"
    using parse_price_mapping [of "[]" PNone] by simp
  show ?thesis using a b c d by (simp add: digits_val_def digit_val_def)
qed

text \<open>
  Against claim C6 as stated: an input that is neither a number nor a string is not
  turned into \<open>None\<close>; it is returned as it is.
\<close>

theorem parse_price_passes_objects: "parse_price PObject \<noteq> Inr PNone"
  by (simp add: parse_price_def)

text \<open>
  Claim C8, as amended. In a flight record that was built, a price read from a string
  is not negative; a numeric price is the collaborator's number, whatever its sign.
\<close>

theorem flight_price_sign:
  "(\<forall>s p. rf_price f = PStr s \<and> flight_info f = Inr fi \<and> f_price fi = Some p \<longrightarrow> 0 \<le> p)
   \<and> (\<forall>i. rf_price f = PInt i \<and> flight_info f = Inr fi \<longrightarrow> f_price fi = Some (of_int i))
   \<and> (\<forall>r. rf_price f = PFloat r \<and> flight_info f = Inr fi \<longrightarrow> f_price fi = Some r)"
  using flight_info_price_str flight_info_price_int flight_info_price_float by blast

theorem flight_price_sign_witness:
  "flight_info (ex_raw ''BA 304'' (PStr ''$300'')) = Inr (ex_flight ''BA 304'' (Some 300)) \<and> (0::rat) \<le> 300
   \<and> flight_info (ex_raw ''AF 1681'' (PInt 300)) = Inr (ex_flight ''AF 1681'' (Some 300))
   \<and> flight_info (ex_raw ''U2 2434'' (PFloat (701 / 2))) = Inr (ex_flight ''U2 2434'' (Some (701 / 2)))"
proof -
  have a: "flight_info (ex_raw ''BA 304'' (PStr ''$300'')) = Inr (ex_flight ''BA 304'' (Some 300))"
    by code_simp
  have b: "flight_info (ex_raw ''AF 1681'' (PInt 300)) = Inr (ex_flight ''AF 1681'' (Some 300))"
    by code_simp
  have c: "flight_info (ex_raw ''U2 2434'' (PFloat (701 / 2))) = Inr (ex_flight ''U2 2434'' (Some (701 / 2)))"
    by code_simp
  have "(0::rat) \<le> 300"
    using flight_price_sign [of "ex_raw ''BA 304'' (PStr ''$300'')" "ex_flight ''BA 304'' (Some 300)"] a
    by (simp add: ex_raw_def ex_flight_def)
  moreover have "f_price (ex_flight ''AF 1681'' (Some 300)) = Some (of_int 300)"
    using flight_price_sign [of "ex_raw ''AF 1681'' (PInt 300)" "ex_flight ''AF 1681'' (Some 300)"] b
    by (simp add: ex_raw_def)
  ultimately show ?thesis using a b c by simp
qed

text \<open>Against claim C8 as stated: a numeric price of -5 gives a record with price -5.\<close>

theorem negative_price_passes:
  "flight_info (ex_raw ''X'' (PInt (- 5))) = Inr (ex_flight ''X'' (Some (- 5))) \<and> \<not> (0::rat) \<le> - 5"
  by code_simp

section \<open>Properties of the selection by price\<close>

lemma py_min_from_first_min:
  "\<exists>pre post. b # xs = pre @ py_min_from key b xs # post
     \<and> (\<forall>g \<in> set pre. key (py_min_from key b xs) < key g)
     \<and> (\<forall>g \<in> set post. key (py_min_from key b xs) \<le> key g)"
proof (induction xs arbitrary: b)
  case Nil
  have "[b] = [] @ py_min_from key b [] # []" by simp
  then show ?case by (metis empty_iff list.set(1))
next
  case (Cons x xs)
  let ?b' = "if key x < key b then x else b"
  let ?r = "py_min_from key ?b' xs"
  from Cons.IH [of ?b'] obtain pre post where
    dec: "?b' # xs = pre @ ?r # post"
    and lo: "\<forall>g \<in> set pre. key ?r < key g"
    and hi: "\<forall>g \<in> set post. key ?r \<le> key g"
    by blast
  have r_le: "key ?r \<le> key ?b'"
  proof -
    have "?b' \<in> set (pre @ ?r # post)" using dec by (metis list.set_intros(1))
    then show ?thesis using lo hi by auto
  qed
  have res: "py_min_from key b (x # xs) = ?r" by simp
  show ?case
  proof (cases "key x < key b")
    case True
    then have "b # x # xs = (b # pre) @ ?r # post" using dec by simp
    moreover have "\<forall>g \<in> set (b # pre). key ?r < key g" using lo r_le True by auto
    ultimately show ?thesis unfolding res using hi by blast
  next
    case False
    show ?thesis
    proof (cases pre)
      case Nil
      then have "b # x # xs = [] @ ?r # (x # xs)" and "post = xs" and "?r = b"
        using dec False by auto
      moreover have "\<forall>g \<in> set (x # xs). key ?r \<le> key g"
        using hi False \<open>post = xs\<close> \<open>?r = b\<close> by auto
      ultimately show ?thesis unfolding res by (metis empty_iff list.set(1))
    next
      case (Cons p pre')
      then have "p = b" and xs: "xs = pre' @ ?r # post" using dec False by auto
      then have "key ?r < key b" using lo Cons by simp
      then have "key ?r < key x" using False by simp
      have "b # x # xs = (b # x # pre') @ ?r # post" using xs by simp
      moreover have "\<forall>g \<in> set (b # x # pre'). key ?r < key g"
        using lo Cons \<open>p = b\<close> \<open>key ?r < key x\<close> by auto
      ultimately show ?thesis unfolding res using hi by blast
    qed
  qed
qed

lemma py_min_None: "py_min key xs = None \<longleftrightarrow> xs = []"
  by (simp add: py_min_def split: list.splits)

lemma py_min_first_min:
  assumes "py_min key xs = Some r"
  shows "\<exists>pre post. xs = pre @ r # post
     \<and> (\<forall>g \<in> set pre. key r < key g) \<and> (\<forall>g \<in> set post. key r \<le> key g)"
proof (cases xs)
  case Nil
  then show ?thesis using assms by (simp add: py_min_def)
next
  case (Cons b rest)
  then have "r = py_min_from key b rest" using assms by (simp add: py_min_def)
  then show ?thesis using py_min_from_first_min [of b rest key] Cons by simp
qed

lemma filter_eq_append_ConsD:
  "filter P ys = pre @ r # post \<Longrightarrow>
   \<exists>us vs. ys = us @ r # vs \<and> filter P us = pre \<and> P r \<and> filter P vs = post"
proof (induction pre arbitrary: ys)
  case Nil
  then show ?case using filter_eq_ConsD [of P ys r post]
    by (metis append_Nil filter_False)
next
  case (Cons a pre)
  then have "filter P ys = a # (pre @ r # post)" by simp
  then obtain us vs where ys: "ys = us @ a # vs" and us: "\<forall>u\<in>set us. \<not> P u" and a: "P a"
    and vs: "pre @ r # post = filter P vs"
    using filter_eq_ConsD [of P ys a "pre @ r # post"] by blast
  from Cons.IH [of vs] vs obtain us' vs' where
    "vs = us' @ r # vs'" "filter P us' = pre" "P r" "filter P vs' = post" by metis
  then have "ys = (us @ a # us') @ r # vs'" "filter P (us @ a # us') = a # pre"
    using ys us a by auto
  then show ?case using \<open>P r\<close> \<open>filter P vs' = post\<close> by blast
qed

lemma min_price_flight_None:
  "min_price_flight fs = None \<longleftrightarrow> (\<forall>f \<in> set fs. f_price f = None)"
  by (simp add: min_price_flight_def py_min_None filter_empty_conv)

lemma min_price_flight_Some:
  assumes "min_price_flight fs = Some best"
  shows "\<exists>pre post p. fs = pre @ best # post \<and> f_price best = Some p
     \<and> (\<forall>g \<in> set pre. \<forall>q. f_price g = Some q \<longrightarrow> p < q)
     \<and> (\<forall>g \<in> set post. \<forall>q. f_price g = Some q \<longrightarrow> p \<le> q)"
proof -
  let ?P = "\<lambda>f. f_price f \<noteq> None" and ?key = "\<lambda>x. the (f_price x)"
  from py_min_first_min [OF assms [unfolded min_price_flight_def]]
  obtain pre post where dec: "filter ?P fs = pre @ best # post"
    and lo: "\<forall>g \<in> set pre. ?key best < ?key g" and hi: "\<forall>g \<in> set post. ?key best \<le> ?key g"
    by blast
  from filter_eq_append_ConsD [OF dec] obtain us vs where
    fs: "fs = us @ best # vs" and us: "filter ?P us = pre" and b: "?P best"
    and vs: "filter ?P vs = post" by blast
  from b obtain p where p: "f_price best = Some p" by auto
  have "\<forall>g \<in> set us. \<forall>q. f_price g = Some q \<longrightarrow> p < q"
  proof (intro ballI allI impI)
    fix g q assume "g \<in> set us" "f_price g = Some q"
    then have "g \<in> set pre" using us by auto
    then show "p < q" using lo p \<open>f_price g = Some q\<close> by auto
  qed
  moreover have "\<forall>g \<in> set vs. \<forall>q. f_price g = Some q \<longrightarrow> p \<le> q"
  proof (intro ballI allI impI)
    fix g q assume "g \<in> set vs" "f_price g = Some q"
    then have "g \<in> set post" using vs by auto
    then show "p \<le> q" using hi p \<open>f_price g = Some q\<close> by auto
  qed
  ultimately show ?thesis using fs p by blast
qed

text \<open>
  Claim C5. The selected flight is a flight with a price, no priced flight before it is
  as cheap and no priced flight after it is cheaper: the first flight of minimum price.
  Nothing is selected exactly when no flight has a price.
\<close>

theorem min_price_flight_selects:
  "(min_price_flight fs = None \<longleftrightarrow> (\<forall>f \<in> set fs. f_price f = None)) \<and>
   (\<forall>best. min_price_flight fs = Some best \<longrightarrow>
      (\<exists>pre post p. fs = pre @ best # post \<and> f_price best = Some p
         \<and> (\<forall>g \<in> set pre. \<forall>q. f_price g = Some q \<longrightarrow> p < q)
         \<and> (\<forall>g \<in> set post. \<forall>q. f_price g = Some q \<longrightarrow> p \<le> q)))"
  using min_price_flight_None min_price_flight_Some by blast

text \<open>The prices 200, none, 150, 300 select the flight at 150; no price, no selection.\<close>

theorem min_price_flight_selects_witness:
  "min_price_flight [ex_flight ''A'' (Some 200), ex_flight ''B'' None, ex_flight ''C'' (Some 150), ex_flight ''D'' (Some 300)] = Some (ex_flight ''C'' (Some 150))
   \<and> min_price_flight [ex_flight ''A'' None, ex_flight ''B'' None] = None"
proof -
  have "\<forall>f \<in> set [ex_flight ''A'' None, ex_flight ''B'' None]. f_price f = None"
    by (simp add: ex_flight_def)
  then have n: "min_price_flight [ex_flight ''A'' None, ex_flight ''B'' None] = None"
    using min_price_flight_selects [of "[ex_flight ''A'' None, ex_flight ''B'' None]"] by blast
  have "min_price_flight [ex_flight ''A'' (Some 200), ex_flight ''B'' None, ex_flight ''C'' (Some 150), ex_flight ''D'' (Some 300)] = Some (ex_flight ''C'' (Some 150))"
    by code_simp
  then show ?thesis using n by simp
qed

section \<open>Properties of the return leg\<close>

lemma flight_answer_priced:
  assumes "flight_answer env hist q = Inr (Some c)"
  shows "\<exists>p. f_price c = Some p"
proof -
  from assms obtain fs where "min_price_flight fs = Some c"
    by (auto simp: flight_answer_def split: sum.splits)
  then show ?thesis using min_price_flight_Some by blast
qed

lemma return_loop_calls:
  "calls (snd (return_loop env req rd ts acc w))
     = calls w @ map (\<lambda>t. GetFlights (return_query req rd t)) ts"
proof (induction ts arbitrary: acc w)
  case Nil
  show ?case by simp
next
  case (Cons t ts)
  obtain bp best where acc: "acc = (bp, best)" by (cases acc)
  show ?case unfolding acc
    by (simp add: flight_leg_def Cons.IH split: sum.splits option.splits)
qed

lemma return_loop_from_best:
  assumes "f_price c = Some p"
  shows "fst (return_loop env req rd ts (Price p, Some c) w)
     = (let c' = py_min_from (\<lambda>x. the (f_price x)) c
                   (successful_candidates (variant_answers env req rd ts (calls w)))
        in (Price (the (f_price c')), Some c'))"
  using assms
proof (induction ts arbitrary: c p w)
  case Nil
  then show ?case by simp
next
  case (Cons t ts)
  let ?a = "flight_answer env (calls w) (return_query req rd t)"
  show ?case
  proof (cases ?a)
    case (Inl e)
    then show ?thesis using Cons.IH [OF Cons.prems] by (simp add: flight_leg_def)
  next
    case (Inr cand)
    show ?thesis
    proof (cases cand)
      case None
      then show ?thesis using Inr Cons.IH [OF Cons.prems] by (simp add: flight_leg_def)
    next
      case (Some x)
      then obtain px where px: "f_price x = Some px"
        using Inr flight_answer_priced by blast
      show ?thesis
      proof (cases "px < p")
        case True
        then show ?thesis using Inr Some px Cons.prems Cons.IH [OF px]
          by (simp add: flight_leg_def)
      next
        case False
        then show ?thesis using Inr Some px Cons.prems Cons.IH [OF Cons.prems]
          by (simp add: flight_leg_def)
      qed
    qed
  qed
qed

lemma return_loop_from_start:
  "snd (fst (return_loop env req rd ts (Infinity, None) w))
     = py_min (\<lambda>x. the (f_price x))
         (successful_candidates (variant_answers env req rd ts (calls w)))"
proof (induction ts arbitrary: w)
  case Nil
  show ?case by (simp add: py_min_def)
next
  case (Cons t ts)
  let ?a = "flight_answer env (calls w) (return_query req rd t)"
  show ?case
  proof (cases ?a)
    case (Inl e)
    then show ?thesis using Cons.IH by (simp add: flight_leg_def)
  next
    case (Inr cand)
    show ?thesis
    proof (cases cand)
      case None
      then show ?thesis using Inr Cons.IH by (simp add: flight_leg_def)
    next
      case (Some x)
      then obtain px where px: "f_price x = Some px"
        using Inr flight_answer_priced by blast
      show ?thesis using Inr Some px return_loop_from_best [OF px]
        by (simp add: flight_leg_def py_min_def Let_def)
    qed
  qed
qed

lemma successful_candidates_priced:
  "c \<in> set (successful_candidates (variant_answers env req rd ts hist)) \<Longrightarrow> \<exists>p. f_price c = Some p"
proof (induction ts arbitrary: hist)
  case Nil
  then show ?case by simp
next
  case (Cons t ts)
  let ?a = "flight_answer env hist (return_query req rd t)"
  show ?case
  proof (cases ?a)
    case (Inl e)
    then show ?thesis using Cons by simp
  next
    case (Inr cand)
    then show ?thesis using Cons flight_answer_priced by (cases cand) auto
  qed
qed

lemma return_leg_supplied:
  assumes "truthy_seq (return_date req)"
  shows "fst (return_leg env req w)
           = py_min (\<lambda>x. the (f_price x))
               (successful_candidates (variant_answers env req (the (return_date req)) trip_types (calls w)))"
    and "calls (snd (return_leg env req w))
           = calls w @ map (\<lambda>t. GetFlights (return_query req (the (return_date req)) t)) trip_types"
proof -
  let ?loop = "return_loop env req (the (return_date req)) trip_types (Infinity, None) w"
  have "fst (return_leg env req w) = snd (fst ?loop)"
    using assms by (simp add: return_leg_def split: prod.splits)
  then show "fst (return_leg env req w)
           = py_min (\<lambda>x. the (f_price x))
               (successful_candidates (variant_answers env req (the (return_date req)) trip_types (calls w)))"
    by (simp only: return_loop_from_start)
  have "snd (return_leg env req w) = snd ?loop"
    using assms by (simp add: return_leg_def split: prod.splits)
  then show "calls (snd (return_leg env req w))
           = calls w @ map (\<lambda>t. GetFlights (return_query req (the (return_date req)) t)) trip_types"
    by (simp only: return_loop_calls)
qed

lemma return_leg_absent:
  "\<not> truthy_seq (return_date req) \<Longrightarrow> return_leg env req w = (None, w)"
  by (simp add: return_leg_def)

section \<open>Outcome of the planner\<close>

lemma plan_trip_outcome:
  "fst (plan_trip env req w) =
     (case flight_answer env (calls w) (outbound_query req) of
        Inl e \<Rightarrow> Inl (HTTPException 502 (''Outbound flight search failed: '' @ exn_str e))
      | Inr out \<Rightarrow>
          (case hotel_answer env
                  (calls (snd (return_leg env req (snd (flight_leg env (outbound_query req) w))))) req of
             Inl e \<Rightarrow> Inl (HTTPException 502 (''Hotel search failed: '' @ exn_str e))
           | Inr hotel \<Rightarrow>
               (case nights_of env req of
                  Inl e \<Rightarrow> Inl (HTTPException 400 (exn_str e))
                | Inr n \<Rightarrow>
                    Inr (build_response req out
                          (fst (return_leg env req (snd (flight_leg env (outbound_query req) w))))
                          hotel n))))"
  by (simp add: plan_trip_def flight_leg_def hotel_leg_def split: sum.splits prod.splits)

lemma plan_trip_outbound_calls:
  assumes "flight_answer env (calls w) (outbound_query req) = Inl e"
  shows "calls (snd (plan_trip env req w)) = calls w @ [GetFlights (outbound_query req)]"
  using assms by (simp add: plan_trip_def flight_leg_def log_line_def)

text \<open>
  Claim C7. When the outbound search fails, the planner fails with status 502 and the
  detail \<^verbatim>\<open>Outbound flight search failed: ...\<close>, and the outbound flight query is the
  only call it has made: no return search, no hotel search. When the hotel search
  fails, it fails with status 502 and the detail \<^verbatim>\<open>Hotel search failed: ...\<close>. The
  only other exception, from reading the dates, gives status 400 with the message of the
  exception. When none of the three fails, the planner returns a response.
\<close>

theorem plan_trip_failures:
  "(\<forall>e. flight_answer env (calls w) (outbound_query req) = Inl e \<longrightarrow>
       fst (plan_trip env req w)
         = Inl (HTTPException 502 (''Outbound flight search failed: '' @ exn_str e))
     \<and> calls (snd (plan_trip env req w)) = calls w @ [GetFlights (outbound_query req)])
   \<and> (\<forall>out e. flight_answer env (calls w) (outbound_query req) = Inr out
        \<and> hotel_answer env
             (calls (snd (return_leg env req (snd (flight_leg env (outbound_query req) w))))) req
            = Inl e \<longrightarrow>
       fst (plan_trip env req w) = Inl (HTTPException 502 (''Hotel search failed: '' @ exn_str e)))
   \<and> (\<forall>out hotel e. flight_answer env (calls w) (outbound_query req) = Inr out
        \<and> hotel_answer env
             (calls (snd (return_leg env req (snd (flight_leg env (outbound_query req) w))))) req
            = Inr hotel
        \<and> nights_of env req = Inl e \<longrightarrow>
       fst (plan_trip env req w) = Inl (HTTPException 400 (exn_str e)))
   \<and> (\<forall>out hotel n. flight_answer env (calls w) (outbound_query req) = Inr out
        \<and> hotel_answer env
             (calls (snd (return_leg env req (snd (flight_leg env (outbound_query req) w))))) req
            = Inr hotel
        \<and> nights_of env req = Inr n \<longrightarrow>
       \<not> isl (fst (plan_trip env req w)))"
  by (simp add: plan_trip_outcome plan_trip_outbound_calls)

text \<open>A failing outbound search, a failing hotel search, an unreadable return date.\<close>

theorem plan_trip_failures_witness:
  "plan_trip ex_env_outbound_fails (ex_req (Some ''2030-06-27'') None) ex_world
     = (Inl (HTTPException 502 ''Outbound flight search failed: connection refused''),
        \<lparr>calls = [GetFlights (outbound_query (ex_req (Some ''2030-06-27'') None))],
         logs = [(ERROR, ''Outbound flight search error in /trip/plan: connection refused'')]\<rparr>)
   \<and> fst (plan_trip ex_env_hotel_fails (ex_req (Some ''2030-06-27'') None) ex_world)
     = Inl (HTTPException 502 ''Hotel search failed: no hotels found'')
   \<and> fst (plan_trip ex_env_300 (ex_req (Some ''next week'') None) ex_world)
     = Inl (HTTPException 400 ''time data does not match format: next week'')
   \<and> \<not> isl (fst (plan_trip ex_env_300 (ex_req (Some ''2030-06-27'') None) ex_world))"
proof -
  let ?req = "ex_req (Some ''2030-06-27'') None"
  let ?bad = "ex_req (Some ''next week'') None"
  have o: "flight_answer ex_env_outbound_fails (calls ex_world) (outbound_query ?req)
             = Inl (Exn OtherException ''connection refused'')"
    by code_simp
  have a: "fst (plan_trip ex_env_outbound_fails ?req ex_world)
             = Inl (HTTPException 502 ''Outbound flight search failed: connection refused'')
         \<and> calls (snd (plan_trip ex_env_outbound_fails ?req ex_world))
             = calls ex_world @ [GetFlights (outbound_query ?req)]"
    using plan_trip_failures [of ex_env_outbound_fails ex_world ?req, THEN conjunct1, rule_format, OF o]
    by simp
  have lg: "logs (snd (plan_trip ex_env_outbound_fails ?req ex_world))
              = [(ERROR, ''Outbound flight search error in /trip/plan: connection refused'')]"
    by code_simp
  have a': "plan_trip ex_env_outbound_fails ?req ex_world
     = (Inl (HTTPException 502 ''Outbound flight search failed: connection refused''),
        \<lparr>calls = [GetFlights (outbound_query ?req)],
         logs = [(ERROR, ''Outbound flight search error in /trip/plan: connection refused'')]\<rparr>)"
    using a lg by (cases "plan_trip ex_env_outbound_fails ?req ex_world") (auto simp: ex_world_def)
  have h1: "flight_answer ex_env_hotel_fails (calls ex_world) (outbound_query ?req)
             = Inr (Some (ex_flight ''BA 304'' (Some 300)))"
    by code_simp
  have h2: "hotel_answer ex_env_hotel_fails
              (calls (snd (return_leg ex_env_hotel_fails ?req
                 (snd (flight_leg ex_env_hotel_fails (outbound_query ?req) ex_world))))) ?req
             = Inl (Exn OtherException ''no hotels found'')"
    by code_simp
  have b: "fst (plan_trip ex_env_hotel_fails ?req ex_world)
             = Inl (HTTPException 502 ''Hotel search failed: no hotels found'')"
    using plan_trip_failures [of ex_env_hotel_fails ex_world ?req, THEN conjunct2, THEN conjunct1,
        rule_format, of "Some (ex_flight ''BA 304'' (Some 300))" "Exn OtherException ''no hotels found''"]
      h1 h2 by simp
  have d1: "flight_answer ex_env_300 (calls ex_world) (outbound_query ?bad)
             = Inr (Some (ex_flight ''BA 304'' (Some 300)))"
    by code_simp
  have d2: "hotel_answer ex_env_300
              (calls (snd (return_leg ex_env_300 ?bad
                 (snd (flight_leg ex_env_300 (outbound_query ?bad) ex_world))))) ?bad
             = Inr (Some (ex_hotel ''Hotel du Nord'' (Some 100) (Some 3) (Some [''Wi-Fi''])))"
    by code_simp
  have d3: "nights_of ex_env_300 ?bad
             = Inl (Exn ValueError ''time data does not match format: next week'')"
    by code_simp
  have c: "fst (plan_trip ex_env_300 ?bad ex_world)
             = Inl (HTTPException 400 ''time data does not match format: next week'')"
    using plan_trip_failures [of ex_env_300 ex_world ?bad, THEN conjunct2, THEN conjunct2,
        THEN conjunct1, rule_format,
        of "Some (ex_flight ''BA 304'' (Some 300))"
           "Some (ex_hotel ''Hotel du Nord'' (Some 100) (Some 3) (Some [''Wi-Fi'']))"
           "Exn ValueError ''time data does not match format: next week''"]
      d1 d2 d3 by simp
  have e1: "flight_answer ex_env_300 (calls ex_world) (outbound_query ?req)
             = Inr (Some (ex_flight ''BA 304'' (Some 300)))"
    by code_simp
  have e2: "hotel_answer ex_env_300
              (calls (snd (return_leg ex_env_300 ?req
                 (snd (flight_leg ex_env_300 (outbound_query ?req) ex_world))))) ?req
             = Inr (Some (ex_hotel ''Hotel du Nord'' (Some 100) (Some 3) (Some [''Wi-Fi''])))"
    by code_simp
  have e3: "nights_of ex_env_300 ?req = Inr 3"
    by code_simp
  have d: "\<not> isl (fst (plan_trip ex_env_300 ?req ex_world))"
    using plan_trip_failures [of ex_env_300 ex_world ?req, THEN conjunct2, THEN conjunct2,
        THEN conjunct2, rule_format,
        of "Some (ex_flight ''BA 304'' (Some 300))"
           "Some (ex_hotel ''Hotel du Nord'' (Some 100) (Some 3) (Some [''Wi-Fi'']))" 3]
      e1 e2 e3 by simp
  show ?thesis using a' b c d by simp
qed

lemma py_min_priced_first_min:
  assumes "py_min (\<lambda>x. the (f_price x)) cs = Some best"
    and "\<forall>c \<in> set cs. \<exists>p. f_price c = Some p"
  shows "\<exists>pre post p. cs = pre @ best # post \<and> f_price best = Some p
     \<and> (\<forall>g \<in> set pre. \<exists>q. f_price g = Some q \<and> p < q)
     \<and> (\<forall>g \<in> set post. \<exists>q. f_price g = Some q \<and> p \<le> q)"
proof -
  from py_min_first_min [OF assms(1)] obtain pre post where
    dec: "cs = pre @ best # post"
    and lo: "\<forall>g \<in> set pre. the (f_price best) < the (f_price g)"
    and hi: "\<forall>g \<in> set post. the (f_price best) \<le> the (f_price g)"
    by blast
  from assms(2) dec obtain p where p: "f_price best = Some p" by auto
  have "\<forall>g \<in> set pre. \<exists>q. f_price g = Some q \<and> p < q"
  proof
    fix g assume g: "g \<in> set pre"
    then obtain q where "f_price g = Some q" using assms(2) dec by auto
    then show "\<exists>q. f_price g = Some q \<and> p < q" using lo g p by auto
  qed
  moreover have "\<forall>g \<in> set post. \<exists>q. f_price g = Some q \<and> p \<le> q"
  proof
    fix g assume g: "g \<in> set post"
    then obtain q where "f_price g = Some q" using assms(2) dec by auto
    then show "\<exists>q. f_price g = Some q \<and> p \<le> q" using hi g p by auto
  qed
  ultimately show ?thesis using dec p by blast
qed

text \<open>
  Claim C4. With a return date (present and not the empty string, as the code tests it)
  the return leg calls the collaborator exactly three times, for one-way, round-trip
  and multi-city in this order, whatever the answers. Its result is the first candidate
  of minimum price among the candidates of the variants that succeeded, and nothing
  when there is none. Without a return date it returns nothing, makes no call and
  changes nothing. If the planner fails, then the outbound search, the hotel search or
  the reading of the dates has failed: a failed return variant is never the reason.
\<close>

theorem return_leg_variants:
  "(truthy_seq (return_date req) \<longrightarrow>
      calls (snd (return_leg env req w))
        = calls w @ map (\<lambda>t. GetFlights (return_query req (the (return_date req)) t))
                      [''one-way'', ''round-trip'', ''multi-city'']
    \<and> (successful_candidates
          (variant_answers env req (the (return_date req))
             [''one-way'', ''round-trip'', ''multi-city''] (calls w)) = []
        \<longrightarrow> fst (return_leg env req w) = None)
    \<and> (successful_candidates
          (variant_answers env req (the (return_date req))
             [''one-way'', ''round-trip'', ''multi-city''] (calls w)) \<noteq> []
        \<longrightarrow> (\<exists>pre best post p.
               successful_candidates
                 (variant_answers env req (the (return_date req))
                    [''one-way'', ''round-trip'', ''multi-city''] (calls w)) = pre @ best # post
             \<and> fst (return_leg env req w) = Some best \<and> f_price best = Some p
             \<and> (\<forall>g \<in> set pre. \<exists>q. f_price g = Some q \<and> p < q)
             \<and> (\<forall>g \<in> set post. \<exists>q. f_price g = Some q \<and> p \<le> q))))
   \<and> (\<not> truthy_seq (return_date req) \<longrightarrow> return_leg env req w = (None, w))
   \<and> (\<forall>x. fst (plan_trip env req w) = Inl x \<longrightarrow>
         (\<exists>e. flight_answer env (calls w) (outbound_query req) = Inl e)
       \<or> (\<exists>e. hotel_answer env
                 (calls (snd (return_leg env req (snd (flight_leg env (outbound_query req) w))))) req
               = Inl e)
       \<or> (\<exists>e. nights_of env req = Inl e))"
proof (intro conjI impI allI)
  let ?cs = "successful_candidates
          (variant_answers env req (the (return_date req))
             [''one-way'', ''round-trip'', ''multi-city''] (calls w))"
  {
    assume t: "truthy_seq (return_date req)"
    show "calls (snd (return_leg env req w))
        = calls w @ map (\<lambda>t. GetFlights (return_query req (the (return_date req)) t))
                      [''one-way'', ''round-trip'', ''multi-city'']"
      using return_leg_supplied(2) [OF t, of env w] by (simp add: trip_types_def)
    have best: "fst (return_leg env req w) = py_min (\<lambda>x. the (f_price x)) ?cs"
      using return_leg_supplied(1) [OF t, of env w] by (simp add: trip_types_def)
    {
      assume "?cs = []"
      then show "fst (return_leg env req w) = None" using best by (simp add: py_min_def)
    }
    {
      assume ne: "?cs \<noteq> []"
      then obtain b where b: "py_min (\<lambda>x. the (f_price x)) ?cs = Some b"
        using py_min_None [of "\<lambda>x. the (f_price x)" ?cs] by (cases "py_min (\<lambda>x. the (f_price x)) ?cs") auto
      have pr: "\<forall>c \<in> set ?cs. \<exists>p. f_price c = Some p"
        using successful_candidates_priced by blast
      from py_min_priced_first_min [OF b pr] best b
      show "\<exists>pre best post p. ?cs = pre @ best # post
             \<and> fst (return_leg env req w) = Some best \<and> f_price best = Some p
             \<and> (\<forall>g \<in> set pre. \<exists>q. f_price g = Some q \<and> p < q)
             \<and> (\<forall>g \<in> set post. \<exists>q. f_price g = Some q \<and> p \<le> q)"
        by metis
    }
  }
  {
    assume "\<not> truthy_seq (return_date req)"
    then show "return_leg env req w = (None, w)" by (rule return_leg_absent)
  }
  {
    fix x assume "fst (plan_trip env req w) = Inl x"
    then show "(\<exists>e. flight_answer env (calls w) (outbound_query req) = Inl e)
       \<or> (\<exists>e. hotel_answer env
                 (calls (snd (return_leg env req (snd (flight_leg env (outbound_query req) w))))) req
               = Inl e)
       \<or> (\<exists>e. nights_of env req = Inl e)"
      by (auto simp: plan_trip_outcome split: sum.splits)
  }
qed

text \<open>
  The one-way variant fails, round-trip offers 400, multi-city offers 350: the return
  flight is the one at 350, after three calls.
\<close>

theorem return_leg_variants_witness:
  "fst (return_leg ex_env_variants (ex_req (Some ''2030-06-27'') None) ex_world)
     = Some (ex_flight ''U2 2434'' (Some 350))
   \<and> calls (snd (return_leg ex_env_variants (ex_req (Some ''2030-06-27'') None) ex_world))
     = [GetFlights (return_query (ex_req (Some ''2030-06-27'') None) ''2030-06-27'' ''one-way''),
        GetFlights (return_query (ex_req (Some ''2030-06-27'') None) ''2030-06-27'' ''round-trip''),
        GetFlights (return_query (ex_req (Some ''2030-06-27'') None) ''2030-06-27'' ''multi-city'')]
   \<and> return_leg ex_env_variants (ex_req None None) ex_world = (None, ex_world)
   \<and> best_return_flight (projr (fst (plan_trip ex_env_variants (ex_req (Some ''2030-06-27'') None) ex_world)))
     = Some (ex_flight ''U2 2434'' (Some 350))"
proof -
  let ?req = "ex_req (Some ''2030-06-27'') None"
  let ?one = "ex_req None None"
  let ?af = "ex_flight ''AF 1681'' (Some 400)"
  let ?u2 = "ex_flight ''U2 2434'' (Some 350)"
  have t: "truthy_seq (return_date ?req)" "\<not> truthy_seq (return_date ?one)"
    "the (return_date ?req) = ''2030-06-27''" "calls ex_world = []"
    by (simp_all add: ex_req_def truthy_seq_def ex_world_def)
  have cs: "successful_candidates
          (variant_answers ex_env_variants ?req ''2030-06-27''
             [''one-way'', ''round-trip'', ''multi-city''] []) = [?af, ?u2]"
    by code_simp
  note rl = return_leg_variants [of ?req ex_env_variants ex_world]
  have c: "calls (snd (return_leg ex_env_variants ?req ex_world))
     = [GetFlights (return_query ?req ''2030-06-27'' ''one-way''),
        GetFlights (return_query ?req ''2030-06-27'' ''round-trip''),
        GetFlights (return_query ?req ''2030-06-27'' ''multi-city'')]"
    using rl [THEN conjunct1, rule_format, OF t(1), THEN conjunct1] unfolding t by simp
  from rl [THEN conjunct1, rule_format, OF t(1), THEN conjunct2, THEN conjunct2] cs
  obtain pre best post p where
    dec: "[?af, ?u2] = pre @ best # post" and b: "fst (return_leg ex_env_variants ?req ex_world) = Some best"
    and p: "f_price best = Some p" and lo: "\<forall>g \<in> set pre. \<exists>q. f_price g = Some q \<and> p < q"
    and hi: "\<forall>g \<in> set post. \<exists>q. f_price g = Some q \<and> p \<le> q"
    unfolding t by auto
  have fp: "f_price ?af = Some 400" "f_price ?u2 = Some 350" by (simp_all add: ex_flight_def)
  have "best = ?u2"
  proof (cases pre)
    case Nil
    then have "best = ?af" "post = [?u2]" using dec by auto
    then have "(400::rat) \<le> 350" using hi p fp by auto
    then show ?thesis by simp
  next
    case (Cons a pre')
    then have "pre' @ best # post = [?u2]" using dec by simp
    then show ?thesis by (cases pre') auto
  qed
  then have a: "fst (return_leg ex_env_variants ?req ex_world) = Some ?u2" using b by simp
  have n: "return_leg ex_env_variants ?one ex_world = (None, ex_world)"
    using return_leg_variants [of ?one ex_env_variants ex_world, THEN conjunct2, THEN conjunct1] t(2)
    by simp
  have r: "best_return_flight (projr (fst (plan_trip ex_env_variants ?req ex_world))) = Some ?u2"
    by code_simp
  show ?thesis using a c n r by simp
qed

section \<open>Properties of the hotel filter\<close>

lemma rating_filter_step:
  "(case star_rating p of
      None \<Rightarrow> xs
    | Some sr \<Rightarrow>
        if sr \<noteq> 0
        then filter (\<lambda>h. case h_rating h of None \<Rightarrow> False | Some r \<Rightarrow> r \<noteq> 0 \<and> of_int sr \<le> r) xs
        else xs)
   = filter (\<lambda>h. \<forall>sr. star_rating p = Some sr \<and> sr \<noteq> 0 \<longrightarrow>
                 (\<exists>r. h_rating h = Some r \<and> r \<noteq> 0 \<and> of_int sr \<le> r)) xs"
proof (cases "star_rating p")
  case None
  then show ?thesis by simp
next
  case (Some sr)
  show ?thesis unfolding Some
    by (cases "sr = 0") (auto intro!: filter_cong split: option.splits)
qed

lemma price_filter_step:
  "(case max_price_per_night p of
      None \<Rightarrow> xs
    | Some mp \<Rightarrow>
        if mp \<noteq> 0
        then filter (\<lambda>h. case h_price h of None \<Rightarrow> False | Some pr \<Rightarrow> pr \<noteq> 0 \<and> pr \<le> mp) xs
        else xs)
   = filter (\<lambda>h. \<forall>mp. max_price_per_night p = Some mp \<and> mp \<noteq> 0 \<longrightarrow>
                 (\<exists>pr. h_price h = Some pr \<and> pr \<noteq> 0 \<and> pr \<le> mp)) xs"
proof (cases "max_price_per_night p")
  case None
  then show ?thesis by simp
next
  case (Some mp)
  show ?thesis unfolding Some
    by (cases "mp = 0") (auto intro!: filter_cong split: option.splits)
qed

lemma amenities_filter_step:
  "(case amenities p of
      None \<Rightarrow> xs
    | Some req_am \<Rightarrow>
        if req_am \<noteq> []
        then filter (\<lambda>h. case h_amenities h of
                           None \<Rightarrow> False
                         | Some am \<Rightarrow> am \<noteq> [] \<and> list_all (\<lambda>a. a \<in> set am) req_am) xs
        else xs)
   = filter (\<lambda>h. \<forall>am. amenities p = Some am \<and> am \<noteq> [] \<longrightarrow>
                 (\<exists>ha. h_amenities h = Some ha \<and> set am \<subseteq> set ha)) xs"
proof (cases "amenities p")
  case None
  then show ?thesis by simp
next
  case (Some am)
  show ?thesis unfolding Some
    by (cases "am = []") (auto simp: list_all_iff intro!: filter_cong split: option.splits)
qed

lemma filter_hotels_Some:
  "filter_hotels (Some p) hotels =
     filter (\<lambda>h.
        (\<forall>sr. star_rating p = Some sr \<and> sr \<noteq> 0 \<longrightarrow>
           (\<exists>r. h_rating h = Some r \<and> r \<noteq> 0 \<and> of_int sr \<le> r))
      \<and> (\<forall>mp. max_price_per_night p = Some mp \<and> mp \<noteq> 0 \<longrightarrow>
           (\<exists>pr. h_price h = Some pr \<and> pr \<noteq> 0 \<and> pr \<le> mp))
      \<and> (\<forall>am. amenities p = Some am \<and> am \<noteq> [] \<longrightarrow>
           (\<exists>ha. h_amenities h = Some ha \<and> set am \<subseteq> set ha))) hotels"
proof -
  have "filter_hotels (Some p) hotels =
     filter (\<lambda>h. \<forall>am. amenities p = Some am \<and> am \<noteq> [] \<longrightarrow>
                 (\<exists>ha. h_amenities h = Some ha \<and> set am \<subseteq> set ha))
       (filter (\<lambda>h. \<forall>mp. max_price_per_night p = Some mp \<and> mp \<noteq> 0 \<longrightarrow>
                 (\<exists>pr. h_price h = Some pr \<and> pr \<noteq> 0 \<and> pr \<le> mp))
          (filter (\<lambda>h. \<forall>sr. star_rating p = Some sr \<and> sr \<noteq> 0 \<longrightarrow>
                 (\<exists>r. h_rating h = Some r \<and> r \<noteq> 0 \<and> of_int sr \<le> r)) hotels))"
    unfolding filter_hotels_def Let_def option.case
    by (simp only: rating_filter_step price_filter_step amenities_filter_step)
  then show ?thesis
    by (simp only: filter_filter) (rule filter_cong, auto)
qed

lemma spec_hotel_ok_agrees:
  assumes "star_rating p \<noteq> Some 0" "max_price_per_night p \<noteq> Some 0" "amenities p \<noteq> Some []"
    and "h_rating h \<noteq> Some 0" "h_price h \<noteq> Some 0"
  shows "spec_hotel_ok p h \<longleftrightarrow>
        (\<forall>sr. star_rating p = Some sr \<and> sr \<noteq> 0 \<longrightarrow>
           (\<exists>r. h_rating h = Some r \<and> r \<noteq> 0 \<and> of_int sr \<le> r))
      \<and> (\<forall>mp. max_price_per_night p = Some mp \<and> mp \<noteq> 0 \<longrightarrow>
           (\<exists>pr. h_price h = Some pr \<and> pr \<noteq> 0 \<and> pr \<le> mp))
      \<and> (\<forall>am. amenities p = Some am \<and> am \<noteq> [] \<longrightarrow>
           (\<exists>ha. h_amenities h = Some ha \<and> set am \<subseteq> set ha))"
proof -
  have a: "(case star_rating p of None \<Rightarrow> True
            | Some sr \<Rightarrow> (case h_rating h of None \<Rightarrow> False | Some r \<Rightarrow> of_int sr \<le> r))
       \<longleftrightarrow> (\<forall>sr. star_rating p = Some sr \<and> sr \<noteq> 0 \<longrightarrow>
           (\<exists>r. h_rating h = Some r \<and> r \<noteq> 0 \<and> of_int sr \<le> r))"
    using assms(1,4) by (auto split: option.splits)
  have b: "(case max_price_per_night p of None \<Rightarrow> True
            | Some mp \<Rightarrow> (case h_price h of None \<Rightarrow> False | Some pr \<Rightarrow> pr \<le> mp))
       \<longleftrightarrow> (\<forall>mp. max_price_per_night p = Some mp \<and> mp \<noteq> 0 \<longrightarrow>
           (\<exists>pr. h_price h = Some pr \<and> pr \<noteq> 0 \<and> pr \<le> mp))"
    using assms(2,5) by (auto split: option.splits)
  have c: "(case amenities p of None \<Rightarrow> True
            | Some req_am \<Rightarrow>
                (case h_amenities h of None \<Rightarrow> False | Some am \<Rightarrow> set req_am \<subseteq> set am))
       \<longleftrightarrow> (\<forall>am. amenities p = Some am \<and> am \<noteq> [] \<longrightarrow>
           (\<exists>ha. h_amenities h = Some ha \<and> set am \<subseteq> set ha))"
    using assms(3) by (auto split: option.splits)
  show ?thesis unfolding spec_hotel_ok_def a b c by simp
qed

text \<open>
  Claim C3, as amended. The filter keeps exactly the hotels that meet every constraint
  in force, in their order. A preference is in force when it is present and not zero
  (for the amenities: not empty). Under a rating constraint a hotel needs a rating that
  is not zero and at least the stars asked for; under a price constraint it needs a price
  that is not zero and at most the maximum; under an amenities constraint it needs
  amenities that contain every amenity asked for. When no preference is zero or empty
  and no hotel has a zero rating or price, this is the filter of the specification.
\<close>

theorem filter_hotels_conjunctive:
  "filter_hotels prefs hotels =
     filter (\<lambda>h. \<forall>p. prefs = Some p \<longrightarrow>
        (\<forall>sr. star_rating p = Some sr \<and> sr \<noteq> 0 \<longrightarrow>
           (\<exists>r. h_rating h = Some r \<and> r \<noteq> 0 \<and> of_int sr \<le> r))
      \<and> (\<forall>mp. max_price_per_night p = Some mp \<and> mp \<noteq> 0 \<longrightarrow>
           (\<exists>pr. h_price h = Some pr \<and> pr \<noteq> 0 \<and> pr \<le> mp))
      \<and> (\<forall>am. amenities p = Some am \<and> am \<noteq> [] \<longrightarrow>
           (\<exists>ha. h_amenities h = Some ha \<and> set am \<subseteq> set ha))) hotels
   \<and> (\<forall>p. prefs = Some p \<and> star_rating p \<noteq> Some 0 \<and> max_price_per_night p \<noteq> Some 0
          \<and> amenities p \<noteq> Some []
          \<and> (\<forall>h \<in> set hotels. h_rating h \<noteq> Some 0 \<and> h_price h \<noteq> Some 0) \<longrightarrow>
        filter_hotels prefs hotels = filter (spec_hotel_ok p) hotels)"
proof (intro conjI allI impI)
  show "filter_hotels prefs hotels =
     filter (\<lambda>h. \<forall>p. prefs = Some p \<longrightarrow>
        (\<forall>sr. star_rating p = Some sr \<and> sr \<noteq> 0 \<longrightarrow>
           (\<exists>r. h_rating h = Some r \<and> r \<noteq> 0 \<and> of_int sr \<le> r))
      \<and> (\<forall>mp. max_price_per_night p = Some mp \<and> mp \<noteq> 0 \<longrightarrow>
           (\<exists>pr. h_price h = Some pr \<and> pr \<noteq> 0 \<and> pr \<le> mp))
      \<and> (\<forall>am. amenities p = Some am \<and> am \<noteq> [] \<longrightarrow>
           (\<exists>ha. h_amenities h = Some ha \<and> set am \<subseteq> set ha))) hotels"
  proof (cases prefs)
    case None
    then show ?thesis by (simp add: filter_hotels_def)
  next
    case (Some p)
    show ?thesis unfolding Some filter_hotels_Some by simp
  qed
next
  fix p
  assume h: "prefs = Some p \<and> star_rating p \<noteq> Some 0 \<and> max_price_per_night p \<noteq> Some 0
          \<and> amenities p \<noteq> Some []
          \<and> (\<forall>h \<in> set hotels. h_rating h \<noteq> Some 0 \<and> h_price h \<noteq> Some 0)"
  then have pp: "prefs = Some p" by simp
  show "filter_hotels prefs hotels = filter (spec_hotel_ok p) hotels"
    unfolding pp filter_hotels_Some
  proof (rule filter_cong [OF refl])
    fix x assume "x \<in> set hotels"
    then show "((\<forall>sr. star_rating p = Some sr \<and> sr \<noteq> 0 \<longrightarrow>
           (\<exists>r. h_rating x = Some r \<and> r \<noteq> 0 \<and> of_int sr \<le> r))
      \<and> (\<forall>mp. max_price_per_night p = Some mp \<and> mp \<noteq> 0 \<longrightarrow>
           (\<exists>pr. h_price x = Some pr \<and> pr \<noteq> 0 \<and> pr \<le> mp))
      \<and> (\<forall>am. amenities p = Some am \<and> am \<noteq> [] \<longrightarrow>
           (\<exists>ha. h_amenities x = Some ha \<and> set am \<subseteq> set ha))) = spec_hotel_ok p x"
      using spec_hotel_ok_agrees [of p x] h by blast
  qed
qed

text \<open>
  The hotel of the claim: rating 3, price 120, Wi-Fi. It is dropped when four stars are
  asked for and kept under three stars, at most 150 a night and Wi-Fi.
\<close>

theorem filter_hotels_conjunctive_witness:
  "filter_hotels (Some \<lparr>star_rating = Some 4, max_price_per_night = None, amenities = None\<rparr>)
      [ex_hotel ''Hotel du Nord'' (Some 120) (Some 3) (Some [''Wi-Fi''])] = []
   \<and> filter_hotels (Some \<lparr>star_rating = Some 3, max_price_per_night = Some 150, amenities = Some [''Wi-Fi'']\<rparr>)
      [ex_hotel ''Hotel du Nord'' (Some 120) (Some 3) (Some [''Wi-Fi''])]
       = [ex_hotel ''Hotel du Nord'' (Some 120) (Some 3) (Some [''Wi-Fi''])]"
proof -
  let ?h = "ex_hotel ''Hotel du Nord'' (Some 120) (Some 3) (Some [''Wi-Fi''])"
  let ?p4 = "\<lparr>star_rating = Some 4, max_price_per_night = None, amenities = None\<rparr>"
  let ?p3 = "\<lparr>star_rating = Some 3, max_price_per_night = Some 150, amenities = Some [''Wi-Fi'']\<rparr>"
  have a: "filter_hotels (Some ?p4) [?h] = []"
    using filter_hotels_conjunctive [of "Some ?p4" "[?h]", THEN conjunct1]
    by (simp add: ex_hotel_def)
  have "filter_hotels (Some ?p3) [?h] = filter (spec_hotel_ok ?p3) [?h]"
    using filter_hotels_conjunctive [of "Some ?p3" "[?h]", THEN conjunct2, rule_format, of ?p3]
    by (simp add: ex_hotel_def)
  then have b: "filter_hotels (Some ?p3) [?h] = [?h]"
    by (simp add: spec_hotel_ok_def ex_hotel_def)
  show ?thesis using a b by simp
qed

text \<open>
  Against claim C3 as stated: with a maximum price of 0 the hotel at 120 is kept, though
  120 is more than the maximum.
\<close>

theorem zero_max_price_keeps_all:
  "filter_hotels (Some \<lparr>star_rating = None, max_price_per_night = Some 0, amenities = None\<rparr>)
      [ex_hotel ''Hotel du Nord'' (Some 120) (Some 3) (Some [''Wi-Fi''])]
     = [ex_hotel ''Hotel du Nord'' (Some 120) (Some 3) (Some [''Wi-Fi''])]
   \<and> \<not> spec_hotel_ok \<lparr>star_rating = None, max_price_per_night = Some 0, amenities = None\<rparr>
         (ex_hotel ''Hotel du Nord'' (Some 120) (Some 3) (Some [''Wi-Fi'']))"
  by (simp add: filter_hotels_def spec_hotel_ok_def ex_hotel_def)

section \<open>Properties of the costs\<close>

lemma plan_trip_Inr:
  assumes "plan_trip env req w = (Inr resp, w')"
  shows "\<exists>out ret hotel nights.
           resp = build_response req out ret hotel nights
         \<and> nights_of env req = Inr nights
         \<and> flight_answer env (calls w) (outbound_query req) = Inr out"
  using assms
  by (auto simp: plan_trip_def flight_leg_def hotel_leg_def split: sum.splits prod.splits)

lemma add_flight_cost_eq:
  "add_flight_cost req fl c =
     c + (case fl of None \<Rightarrow> 0
          | Some f \<Rightarrow> (case f_price f of None \<Rightarrow> 0
                       | Some p \<Rightarrow> p * of_int (adults req + children req)))"
  by (simp add: add_flight_cost_def split: option.splits)

lemma total_hotel_cost_eq:
  "total_hotel_cost hotel nights =
     (case hotel of None \<Rightarrow> 0
      | Some h \<Rightarrow> (case h_price h of None \<Rightarrow> 0 | Some p \<Rightarrow> p * of_int nights))"
  by (simp add: total_hotel_cost_def split: option.splits)

lemma nights_of_cases:
  assumes "nights_of env req = Inr n"
  shows "(truthy_seq (return_date req) \<longrightarrow>
            (\<exists>t1 t2. to_datetime env (the (return_date req)) = Inr t2
               \<and> to_datetime env (depart_date req) = Inr t1
               \<and> n = (t2 - t1) div ns_per_day))
       \<and> (\<not> truthy_seq (return_date req) \<longrightarrow> n = 1)"
  using assms by (auto simp: nights_of_def split: sum.splits if_splits)

text \<open>
  Claim C1, as amended. In every response, the flight cost is the sum over the selected
  outbound and return flights with a price of the price times the travellers; the nights
  are the whole days from the departure date to the return date when a return date is
  given (present and not empty), with no minimum, and 1 otherwise; the hotel cost is
  the price of the selected hotel times the nights, and 0 without a hotel or without a
  price; the total is the sum of the two; the cost per person and day is the total
  divided by travellers times nights when both are positive, and absent otherwise.
\<close>

theorem plan_trip_costs:
  assumes "plan_trip env req w = (Inr resp, w')"
  shows "b_flight (breakdown resp) =
           (case best_outbound_flight resp of None \<Rightarrow> 0
            | Some f \<Rightarrow> (case f_price f of None \<Rightarrow> 0
                         | Some p \<Rightarrow> p * of_int (adults req + children req)))
         + (case best_return_flight resp of None \<Rightarrow> 0
            | Some f \<Rightarrow> (case f_price f of None \<Rightarrow> 0
                         | Some p \<Rightarrow> p * of_int (adults req + children req)))
       \<and> (truthy_seq (return_date req) \<longrightarrow>
            (\<exists>t1 t2. to_datetime env (the (return_date req)) = Inr t2
               \<and> to_datetime env (depart_date req) = Inr t1
               \<and> b_nights (breakdown resp) = (t2 - t1) div ns_per_day))
       \<and> (\<not> truthy_seq (return_date req) \<longrightarrow> b_nights (breakdown resp) = 1)
       \<and> b_hotel (breakdown resp) =
           (case best_hotel resp of None \<Rightarrow> 0
            | Some h \<Rightarrow> (case h_price h of None \<Rightarrow> 0
                         | Some p \<Rightarrow> p * of_int (b_nights (breakdown resp))))
       \<and> total_estimated_cost resp = Some (b_flight (breakdown resp) + b_hotel (breakdown resp))
       \<and> per_person_per_day resp =
           (if 0 < adults req + children req \<and> 0 < b_nights (breakdown resp)
            then Some ((b_flight (breakdown resp) + b_hotel (breakdown resp))
                        / of_int ((adults req + children req) * b_nights (breakdown resp)))
            else None)"
proof -
  from plan_trip_Inr [OF assms] obtain out ret hotel nights where
    r: "resp = build_response req out ret hotel nights" and n: "nights_of env req = Inr nights"
    by blast
  have f: "b_flight (breakdown resp) =
           (case best_outbound_flight resp of None \<Rightarrow> 0
            | Some f \<Rightarrow> (case f_price f of None \<Rightarrow> 0
                         | Some p \<Rightarrow> p * of_int (adults req + children req)))
         + (case best_return_flight resp of None \<Rightarrow> 0
            | Some f \<Rightarrow> (case f_price f of None \<Rightarrow> 0
                         | Some p \<Rightarrow> p * of_int (adults req + children req)))"
    unfolding r by (simp add: build_response_def total_flight_cost_def add_flight_cost_eq Let_def)
  have bn: "b_nights (breakdown resp) = nights"
    unfolding r by (simp add: build_response_def Let_def)
  have h: "b_hotel (breakdown resp) =
           (case best_hotel resp of None \<Rightarrow> 0
            | Some h \<Rightarrow> (case h_price h of None \<Rightarrow> 0
                         | Some p \<Rightarrow> p * of_int (b_nights (breakdown resp))))"
    unfolding bn unfolding r by (simp add: build_response_def total_hotel_cost_eq Let_def)
  have t: "total_estimated_cost resp = Some (b_flight (breakdown resp) + b_hotel (breakdown resp))"
    unfolding r by (simp add: build_response_def Let_def)
  have p: "per_person_per_day resp =
           (if 0 < adults req + children req \<and> 0 < b_nights (breakdown resp)
            then Some ((b_flight (breakdown resp) + b_hotel (breakdown resp))
                        / of_int ((adults req + children req) * b_nights (breakdown resp)))
            else None)"
    unfolding bn unfolding r
    by (simp add: build_response_def per_person_per_day_of_def Let_def conj_commute)
  show ?thesis using f h t p nights_of_cases [OF n] unfolding bn by simp
qed

text \<open>
  Two adults, 300 out and 300 back, three nights at 100: flights 1200, hotel 300, total
  1500, 250 per person and day.
\<close>

theorem plan_trip_costs_witness:
  "fst (plan_trip ex_env_300 (ex_req (Some ''2030-06-27'') None) ex_world)
     = Inr \<lparr>best_outbound_flight = Some (ex_flight ''BA 304'' (Some 300)),
            best_return_flight = Some (ex_flight ''AF 1681'' (Some 300)),
            best_hotel = Some (ex_hotel ''Hotel du Nord'' (Some 100) (Some 3) (Some [''Wi-Fi''])),
            total_estimated_cost = Some 1500, per_person_per_day = Some 250,
            breakdown = \<lparr>b_flight = 1200, b_hotel = 300, b_nights = 3, b_adults = 2, b_children = 0\<rparr>,
            suggestions = None\<rparr>"
proof -
  let ?req = "ex_req (Some ''2030-06-27'') None"
  let ?out = "Some (ex_flight ''BA 304'' (Some 300))"
  let ?ret = "Some (ex_flight ''AF 1681'' (Some 300))"
  let ?hot = "Some (ex_hotel ''Hotel du Nord'' (Some 100) (Some 3) (Some [''Wi-Fi'']))"
  let ?resp = "build_response ?req ?out ?ret ?hot 3"
  have run: "fst (plan_trip ex_env_300 ?req ex_world) = Inr ?resp"
    by code_simp
  then have "plan_trip ex_env_300 ?req ex_world = (Inr ?resp, snd (plan_trip ex_env_300 ?req ex_world))"
    by (metis prod.collapse)
  note c = plan_trip_costs [OF this]
  have sel: "best_outbound_flight ?resp = ?out" "best_return_flight ?resp = ?ret"
    "best_hotel ?resp = ?hot" "b_nights (breakdown ?resp) = 3" "b_adults (breakdown ?resp) = 2"
    "b_children (breakdown ?resp) = 0" "suggestions ?resp = None"
    by (simp_all add: build_response_def Let_def ex_req_def suggestions_of_def)
  have fl: "b_flight (breakdown ?resp) = 1200"
    using c [THEN conjunct1] unfolding sel by (simp add: ex_flight_def ex_req_def)
  have ho: "b_hotel (breakdown ?resp) = 300"
    using c [THEN conjunct2, THEN conjunct2, THEN conjunct2, THEN conjunct1] unfolding sel
    by (simp add: ex_hotel_def)
  have to: "total_estimated_cost ?resp = Some 1500"
    using c [THEN conjunct2, THEN conjunct2, THEN conjunct2, THEN conjunct2, THEN conjunct1]
    unfolding fl ho by simp
  have pp: "per_person_per_day ?resp = Some 250"
    using c [THEN conjunct2, THEN conjunct2, THEN conjunct2, THEN conjunct2, THEN conjunct2]
    unfolding fl ho sel by (simp add: ex_req_def)
  have "?resp = \<lparr>best_outbound_flight = ?out, best_return_flight = ?ret, best_hotel = ?hot,
            total_estimated_cost = Some 1500, per_person_per_day = Some 250,
            breakdown = \<lparr>b_flight = 1200, b_hotel = 300, b_nights = 3, b_adults = 2, b_children = 0\<rparr>,
            suggestions = None\<rparr>"
    using sel fl ho to pp by (cases ?resp, cases "breakdown ?resp") simp
  then show ?thesis using run by simp
qed

text \<open>
  Against claim C1 as stated: a trip that returns on the day of departure is answered
  with 0 nights, not with a minimum of 1.
\<close>

theorem same_day_trip_zero_nights:
  "\<not> isl (fst (plan_trip ex_env_300 (ex_req (Some ''2030-06-24'') None) ex_world))
   \<and> b_nights (breakdown (projr (fst (plan_trip ex_env_300 (ex_req (Some ''2030-06-24'') None) ex_world)))) = 0"
  by code_simp

text \<open>
  Claim C9, as amended. The response carries the advisory exactly when a budget is given,
  is not zero, and the total exceeds it; otherwise the field is absent.
\<close>

theorem plan_trip_advisory:
  assumes "plan_trip env req w = (Inr resp, w')"
  shows "(suggestions resp = Some advisory \<longleftrightarrow>
            (\<exists>b t. max_total_budget req = Some b \<and> b \<noteq> 0
                 \<and> total_estimated_cost resp = Some t \<and> b < t))
       \<and> (suggestions resp \<noteq> Some advisory \<longrightarrow> suggestions resp = None)"
proof -
  from plan_trip_Inr [OF assms] obtain out ret hotel nights where
    r: "resp = build_response req out ret hotel nights" by blast
  show ?thesis unfolding r
    by (auto simp: build_response_def suggestions_of_def Let_def split: option.splits)
qed

text \<open>A total of 1500 against a budget of 1000, of 2000, and without a budget.\<close>

theorem plan_trip_advisory_witness:
  "suggestions (projr (fst (plan_trip ex_env_300 (ex_req (Some ''2030-06-27'') (Some 1000)) ex_world)))
     = Some advisory
   \<and> suggestions (projr (fst (plan_trip ex_env_300 (ex_req (Some ''2030-06-27'') (Some 2000)) ex_world)))
     = None
   \<and> suggestions (projr (fst (plan_trip ex_env_300 (ex_req (Some ''2030-06-27'') None) ex_world)))
     = None"
proof -
  let ?p = "\<lambda>b. plan_trip ex_env_300 (ex_req (Some ''2030-06-27'') b) ex_world"
  let ?r = "\<lambda>b. projr (fst (?p b))"
  have ok: "\<not> isl (fst (?p (Some 1000)))" "\<not> isl (fst (?p (Some 2000)))" "\<not> isl (fst (?p None))"
    by code_simp+
  have tot: "total_estimated_cost (?r (Some 1000)) = Some 1500"
    "total_estimated_cost (?r (Some 2000)) = Some 1500"
    by code_simp+
  have e: "\<And>b. \<not> isl (fst (?p b)) \<Longrightarrow> ?p b = (Inr (?r b), snd (?p b))"
    by (metis prod.collapse sum.collapse(2))
  have a: "suggestions (?r (Some 1000)) = Some advisory"
    using plan_trip_advisory [OF e [OF ok(1)]] tot(1) by (simp add: ex_req_def)
  have b: "suggestions (?r (Some 2000)) = None"
    using plan_trip_advisory [OF e [OF ok(2)]] tot(2) by (simp add: ex_req_def)
  have c: "suggestions (?r None) = None"
    using plan_trip_advisory [OF e [OF ok(3)]] by (simp add: ex_req_def)
  show ?thesis using a b c by simp
qed

text \<open>
  Against claim C9 as stated: a budget of 0 is given and the total of 1500 exceeds it,
  yet there is no advisory.
\<close>

theorem zero_budget_no_advisory:
  "\<not> isl (fst (plan_trip ex_env_300 (ex_req (Some ''2030-06-27'') (Some 0)) ex_world))
   \<and> max_total_budget (ex_req (Some ''2030-06-27'') (Some 0)) = Some 0
   \<and> total_estimated_cost (projr (fst (plan_trip ex_env_300 (ex_req (Some ''2030-06-27'') (Some 0)) ex_world)))
       = Some 1500
   \<and> suggestions (projr (fst (plan_trip ex_env_300 (ex_req (Some ''2030-06-27'') (Some 0)) ex_world)))
       = None"
  by code_simp

lemma request_valid_return_date:
  "request_valid env (req\<lparr>return_date := rd\<rparr>) = request_valid env req"
  by (simp add: request_valid_def)

lemma ns_per_day_pos: "0 < ns_per_day"
  by (simp add: ns_per_day_def)

text \<open>
  Claim C10. The validation of a request does not read the return date. With a return
  date the nights are the whole days between the two dates, without a lower bound: for
  equal timestamps 0 nights, hotel cost 0 and no cost per person and day; for a return
  before the departure a negative number of nights, and with a selected hotel of
  positive price a negative hotel cost and a total below the flight cost.
\<close>

theorem nights_without_lower_bound:
  "request_valid env (req\<lparr>return_date := rd\<rparr>) = request_valid env req
   \<and> (\<forall>resp w' t1 t2.
         plan_trip env req w = (Inr resp, w') \<and> truthy_seq (return_date req)
         \<and> to_datetime env (the (return_date req)) = Inr t2
         \<and> to_datetime env (depart_date req) = Inr t1 \<longrightarrow>
           b_nights (breakdown resp) = (t2 - t1) div ns_per_day
         \<and> (t2 = t1 \<longrightarrow> b_nights (breakdown resp) = 0 \<and> b_hotel (breakdown resp) = 0
                \<and> per_person_per_day resp = None)
         \<and> (t2 < t1 \<longrightarrow> b_nights (breakdown resp) < 0
                \<and> (\<forall>h p. best_hotel resp = Some h \<and> h_price h = Some p \<and> 0 < p \<longrightarrow>
                      b_hotel (breakdown resp) < 0
                    \<and> total_estimated_cost resp
                        = Some (b_flight (breakdown resp) + p * of_int (b_nights (breakdown resp)))
                    \<and> b_flight (breakdown resp) + p * of_int (b_nights (breakdown resp))
                        < b_flight (breakdown resp))))"
proof (intro conjI allI impI)
  show "request_valid env (req\<lparr>return_date := rd\<rparr>) = request_valid env req"
    by (rule request_valid_return_date)
next
  fix resp w' t1 t2
  assume h: "plan_trip env req w = (Inr resp, w') \<and> truthy_seq (return_date req)
         \<and> to_datetime env (the (return_date req)) = Inr t2
         \<and> to_datetime env (depart_date req) = Inr t1"
  from plan_trip_Inr [of env req w resp w'] h obtain out ret hotel nights where
    r: "resp = build_response req out ret hotel nights" and n: "nights_of env req = Inr nights"
    by blast
  have nv: "nights = (t2 - t1) div ns_per_day"
    using n h by (simp add: nights_of_def)
  have bn: "b_nights (breakdown resp) = nights"
    unfolding r by (simp add: build_response_def Let_def)
  show n1: "b_nights (breakdown resp) = (t2 - t1) div ns_per_day"
    using bn nv by simp
  {
    assume "t2 = t1"
    then have z: "nights = 0" using nv by simp
    show "b_nights (breakdown resp) = 0" using bn z by simp
    show "b_hotel (breakdown resp) = 0"
      unfolding r by (simp add: build_response_def total_hotel_cost_eq Let_def z split: option.splits)
    show "per_person_per_day resp = None"
      unfolding r by (simp add: build_response_def per_person_per_day_of_def Let_def z)
  }
  {
    assume "t2 < t1"
    then have neg: "nights < 0"
      using nv ns_per_day_pos by (simp add: pos_imp_zdiv_neg_iff)
    then show "b_nights (breakdown resp) < 0" using bn by simp
    fix h p
    assume hp: "best_hotel resp = Some h \<and> h_price h = Some p \<and> 0 < p"
    then have hh: "hotel = Some h" unfolding r by (simp add: build_response_def Let_def)
    have bh: "b_hotel (breakdown resp) = p * of_int nights"
      unfolding r using hh hp by (simp add: build_response_def total_hotel_cost_eq Let_def)
    have lt: "p * of_int nights < 0"
      using hp neg by (simp add: mult_pos_neg)
    show "b_hotel (breakdown resp) < 0" using bh lt by simp
    show "total_estimated_cost resp
            = Some (b_flight (breakdown resp) + p * of_int (b_nights (breakdown resp)))"
      unfolding bn unfolding r using hh hp
      by (simp add: build_response_def total_hotel_cost_eq Let_def)
    show "b_flight (breakdown resp) + p * of_int (b_nights (breakdown resp))
            < b_flight (breakdown resp)"
      unfolding bn using lt by simp
  }
qed

text \<open>
  A return two days before the departure passes validation and is answered with -2
  nights and a negative hotel cost; a return on the day of departure with 0 nights.
\<close>

theorem nights_without_lower_bound_witness:
  "request_valid ex_env_300 (ex_req (Some ''2030-06-22'') None)
   \<and> fst (plan_trip ex_env_300 (ex_req (Some ''2030-06-22'') None) ex_world)
       = Inr (build_response (ex_req (Some ''2030-06-22'') None)
               (Some (ex_flight ''BA 304'' (Some 300))) (Some (ex_flight ''AF 1681'' (Some 300)))
               (Some (ex_hotel ''Hotel du Nord'' (Some 100) (Some 3) (Some [''Wi-Fi'']))) (- 2))
   \<and> b_nights (breakdown (projr (fst (plan_trip ex_env_300 (ex_req (Some ''2030-06-22'') None) ex_world)))) = - 2
   \<and> b_hotel (breakdown (projr (fst (plan_trip ex_env_300 (ex_req (Some ''2030-06-22'') None) ex_world)))) < 0
   \<and> fst (plan_trip ex_env_300 (ex_req (Some ''2030-06-24'') None) ex_world)
       = Inr (build_response (ex_req (Some ''2030-06-24'') None)
               (Some (ex_flight ''BA 304'' (Some 300))) (Some (ex_flight ''AF 1681'' (Some 300)))
               (Some (ex_hotel ''Hotel du Nord'' (Some 100) (Some 3) (Some [''Wi-Fi'']))) 0)
   \<and> per_person_per_day (projr (fst (plan_trip ex_env_300 (ex_req (Some ''2030-06-24'') None) ex_world))) = None"
proof -
  let ?req = "ex_req (Some ''2030-06-22'') None"
  let ?sreq = "ex_req (Some ''2030-06-24'') None"
  let ?out = "Some (ex_flight ''BA 304'' (Some 300))"
  let ?ret = "Some (ex_flight ''AF 1681'' (Some 300))"
  let ?h = "ex_hotel ''Hotel du Nord'' (Some 100) (Some 3) (Some [''Wi-Fi''])"
  let ?resp = "build_response ?req ?out ?ret (Some ?h) (- 2)"
  let ?sresp = "build_response ?sreq ?out ?ret (Some ?h) 0"
  have v: "request_valid ex_env_300 ?req" by code_simp
  have run: "fst (plan_trip ex_env_300 ?req ex_world) = Inr ?resp" by code_simp
  have run0: "fst (plan_trip ex_env_300 ?sreq ex_world) = Inr ?sresp" by code_simp
  have p: "plan_trip ex_env_300 ?req ex_world = (Inr ?resp, snd (plan_trip ex_env_300 ?req ex_world))"
    using run by (metis prod.collapse)
  have p0: "plan_trip ex_env_300 ?sreq ex_world = (Inr ?sresp, snd (plan_trip ex_env_300 ?sreq ex_world))"
    using run0 by (metis prod.collapse)
  have rd: "the (return_date ?req) = ''2030-06-22''" "the (return_date ?sreq) = ''2030-06-24''"
    "depart_date ?req = ''2030-06-24''" "depart_date ?sreq = ''2030-06-24''"
    by (simp_all add: ex_req_def)
  have d2: "to_datetime ex_env_300 ''2030-06-22'' = Inr (22087 * ns_per_day)"
    by code_simp
  have d1: "to_datetime ex_env_300 ''2030-06-24'' = Inr (22089 * ns_per_day)"
    by code_simp
  have tr: "truthy_seq (return_date ?req)" "truthy_seq (return_date ?sreq)"
    by (simp_all add: ex_req_def truthy_seq_def)
  have lt: "22087 * ns_per_day < 22089 * ns_per_day" using ns_per_day_pos by simp
  have hs: "best_hotel ?resp = Some ?h \<and> h_price ?h = Some 100 \<and> (0::rat) < 100"
    by (simp add: build_response_def Let_def ex_hotel_def)
  have g: "b_nights (breakdown ?resp) = (22087 * ns_per_day - 22089 * ns_per_day) div ns_per_day
      \<and> (22087 * ns_per_day < 22089 * ns_per_day \<longrightarrow> b_nights (breakdown ?resp) < 0
          \<and> (\<forall>h p. best_hotel ?resp = Some h \<and> h_price h = Some p \<and> 0 < p \<longrightarrow>
                 b_hotel (breakdown ?resp) < 0))"
    using nights_without_lower_bound [where env = ex_env_300 and req = ?req and w = ex_world, THEN conjunct2, rule_format,
      of ?resp "snd (plan_trip ex_env_300 ?req ex_world)" "22087 * ns_per_day" "22089 * ns_per_day"]
      p tr(1) d2 d1 unfolding rd by blast
  have "(22087 * ns_per_day - 22089 * ns_per_day) div ns_per_day = - 2"
    by (simp add: ns_per_day_def)
  then have n: "b_nights (breakdown ?resp) = - 2" using g by simp
  have bh: "b_hotel (breakdown ?resp) < 0" using g lt hs by blast
  have g0: "b_nights (breakdown ?sresp) = 0 \<and> b_hotel (breakdown ?sresp) = 0
      \<and> per_person_per_day ?sresp = None"
    using nights_without_lower_bound [where env = ex_env_300 and req = ?sreq and w = ex_world, THEN conjunct2, rule_format,
      of ?sresp "snd (plan_trip ex_env_300 ?sreq ex_world)" "22089 * ns_per_day" "22089 * ns_per_day"]
      p0 tr(2) d1 unfolding rd by blast
  show ?thesis using v run run0 n bh g0 by simp
qed

end
